theory Spec2Isabelle
  imports Complex_Main "HOL-Library.AList" "HOL-Library.List_Lexorder" "HOL-Library.Char_ord"
begin

section \<open>The Jira tool server: a model of \<^verbatim>\<open>main.go\<close>\<close>

text \<open>
  The server exposes three Jira operations (create, update and search issues) and one
  information resource. Each operation builds one HTTP request from its arguments, hands
  it to the HTTP client, and turns the one response into a result or an error.

  Go strings are byte sequences: they are modelled as \<^typ>\<open>string\<close>, a list of 8-bit
  characters. Functions keep the names they have in the Go source; the functions of the
  Go standard library that the source calls are modelled next to the place of their
  first use, under the name they have in their package.
\<close>

subsection \<open>Package \<^verbatim>\<open>strings\<close>\<close>

definition isASCII :: "char \<Rightarrow> bool" where
  "isASCII c = (of_char c < (128::nat))"

text \<open>The byte loop of \<^verbatim>\<open>strings.ToLower\<close>: \<^verbatim>\<open>if 'A' <= c && c <= 'Z' { c += 'a' - 'A' }\<close>.\<close>

definition toLowerASCII :: "char \<Rightarrow> char" where
  "toLowerASCII c =
     (if CHR ''A'' \<le> c \<and> c \<le> CHR ''Z'' then char_of (of_char c + (32::nat)) else c)"

text \<open>
  \<^verbatim>\<open>strings.ToLower\<close> lower-cases a string of ASCII bytes byte by byte; a string with a
  byte of 128 or more goes through \<^verbatim>\<open>strings.Map(unicode.ToLower, s)\<close>, which reads the
  Unicode case tables. The tables are not part of the program: that path is the
  parameter \<open>mapLower\<close>.
\<close>

definition ToLower :: "(string \<Rightarrow> string) \<Rightarrow> string \<Rightarrow> string" where
  "ToLower mapLower s = (if list_all isASCII s then map toLowerASCII s else mapLower s)"

definition HasPrefix :: "string \<Rightarrow> string \<Rightarrow> bool" where
  "HasPrefix s prefix = (take (length prefix) s = prefix)"

text \<open>\<^verbatim>\<open>strings.Contains\<close>: does \<open>substr\<close> start at some position of \<open>s\<close>.\<close>

fun Contains :: "string \<Rightarrow> string \<Rightarrow> bool" where
  "Contains [] substr = (substr = [])"
| "Contains (c # s) substr = (HasPrefix (c # s) substr \<or> Contains s substr)"

subsection \<open>Configuration, arguments and the client\<close>

record JiraConfig =
  URL :: string
  APIKey :: string
  Email :: string

record CreateIssueArgs =
  JiraConfig :: JiraConfig
  ProjectKey :: string
  Summary :: string
  Description :: string
  IssueType :: string

record UpdateIssueArgs =
  JiraConfig :: JiraConfig
  IssueKey :: string
  Summary :: string
  Description :: string

record SearchIssuesArgs =
  JiraConfig :: JiraConfig
  JQL :: string

text \<open>\<^verbatim>\<open>http.Client\<close>: only its timeout is set, in nanoseconds as \<^verbatim>\<open>time.Duration\<close> counts.\<close>

record Client =
  Timeout :: int

definition Second :: int where
  "Second = 1000000000"

record JiraClient =
  config :: JiraConfig
  httpClient :: Client
  isCloud :: bool

text \<open>
  \<^verbatim>\<open>NewJiraClient\<close>. The parameter is the Unicode path of \<^verbatim>\<open>strings.ToLower\<close>.
\<close>

definition NewJiraClient :: "(string \<Rightarrow> string) \<Rightarrow> JiraConfig \<Rightarrow> JiraClient" where
  "NewJiraClient mapLower cfg =
     \<lparr>config = cfg,
      httpClient = \<lparr>Timeout = 10 * Second\<rparr>,
      isCloud = Contains (ToLower mapLower (JiraConfig.URL cfg)) ''.atlassian.net''\<rparr>"

definition getBaseAPIPath :: "JiraClient \<Rightarrow> string" where
  "getBaseAPIPath c = (if isCloud c then ''/rest/api/3'' else ''/rest/api/2'')"

text \<open>
  The specification names the two deployments; the code keeps the flag \<open>isCloud\<close>.
\<close>

datatype DeploymentVariant = Cloud | DataCenter

definition variant :: "JiraClient \<Rightarrow> DeploymentVariant" where
  "variant c = (if isCloud c then Cloud else DataCenter)"

subsection \<open>JSON\<close>

text \<open>
  One tree type serves for the JSON documents on the wire and for the Go values that
  \<^verbatim>\<open>encoding/json\<close> turns into them (\<^verbatim>\<open>map[string]interface{}\<close>, \<^verbatim>\<open>map[string]string\<close>,
  \<^verbatim>\<open>[]string\<close>, \<^verbatim>\<open>string\<close>). An object is the list of its members in order: a document
  read from the wire may repeat a name, and the decoder handles members one after the
  other. A number is the rational its literal denotes. The text of a document (string
  escapes, white space) is not modelled: a body is the tree it is the text of.
\<close>

datatype json =
    JNull
  | JBool bool
  | JNumber rat
  | JString string
  | JArray "json list"
  | JObject "(string \<times> json) list"

text \<open>
  \<^verbatim>\<open>json.Marshal\<close> writes the members of a Go map sorted by key, byte-wise. On values built
  from strings, string-keyed maps and slices it returns no error.
\<close>

fun sortKeys :: "json \<Rightarrow> json" where
  "sortKeys (JArray xs) = JArray (map sortKeys xs)"
| "sortKeys (JObject kvs) = JObject (sort_key fst (map (\<lambda>(k, v). (k, sortKeys v)) kvs))"
| "sortKeys v = v"

definition Marshal :: "json \<Rightarrow> string + json" where
  "Marshal v = Inr (sortKeys v)"

text \<open>\<^verbatim>\<open>mustMarshal\<close>: \<^verbatim>\<open>None\<close> is the panic.\<close>

definition mustMarshal :: "json \<Rightarrow> json option" where
  "mustMarshal v = (case Marshal v of Inl err \<Rightarrow> None | Inr b \<Rightarrow> Some b)"

subsection \<open>Package \<^verbatim>\<open>encoding/base64\<close>\<close>

definition encodeStd :: string where
  "encodeStd = ''ABCDEFGHIJKLMNOPQRSTUVWXYZabcdefghijklmnopqrstuvwxyz0123456789+/''"

definition sextet :: "nat \<Rightarrow> char" where
  "sextet n = encodeStd ! n"

fun encodeBytes :: "nat list \<Rightarrow> string" where
  "encodeBytes [] = []"
| "encodeBytes [a] = [sextet (a div 4), sextet (a mod 4 * 16), CHR ''='', CHR ''='']"
| "encodeBytes [a, b] =
     [sextet (a div 4), sextet (a mod 4 * 16 + b div 16), sextet (b mod 16 * 4), CHR ''='']"
| "encodeBytes (a # b # c # bs) =
     [sextet (a div 4), sextet (a mod 4 * 16 + b div 16),
      sextet (b mod 16 * 4 + c div 64), sextet (c mod 64)] @ encodeBytes bs"

text \<open>\<^verbatim>\<open>base64.StdEncoding.EncodeToString\<close>.\<close>

definition EncodeToString :: "string \<Rightarrow> string" where
  "EncodeToString s = encodeBytes (map of_char s)"

subsection \<open>Package \<^verbatim>\<open>net/http\<close>\<close>

text \<open>
  A request: only what the source sets. A header key holds a list of values;
  \<^verbatim>\<open>Header.Set\<close> replaces the list by the one value. The keys the source uses are
  already in canonical form. The body is the document sent, \<^verbatim>\<open>None\<close> for \<^verbatim>\<open>nil\<close>.
\<close>

record Request =
  Method :: string
  URL :: string
  Header :: "string \<rightharpoonup> string list"
  Body :: "json option"

text \<open>
  A response: the status code, and the body as the decoder finds it: \<^verbatim>\<open>Inl\<close> when
  reading the body fails or it does not start with a well-formed JSON value (an empty
  body included), else the first JSON value in it.
\<close>

record Response =
  StatusCode :: int
  Body :: "string + json"

definition StatusOK :: int where "StatusOK = 200"
definition StatusCreated :: int where "StatusCreated = 201"
definition StatusNoContent :: int where "StatusNoContent = 204"

text \<open>
  What the program does not decide: the Unicode path of \<^verbatim>\<open>strings.ToLower\<close>, whether
  \<^verbatim>\<open>url.Parse\<close> accepts a URL (\<^verbatim>\<open>Some\<close> is its error), and what \<^verbatim>\<open>(*http.Client).Do\<close>
  returns for a request (\<^verbatim>\<open>Inl\<close> is its error: no connection, timeout, ...).
\<close>

record env =
  toLowerUnicode :: "string \<Rightarrow> string"
  urlParse :: "string \<Rightarrow> string option"
  Do :: "Client \<Rightarrow> Request \<Rightarrow> string + Response"

text \<open>
  \<^verbatim>\<open>http.NewRequest\<close> fails when the URL does not parse; the three methods the source
  passes are valid.
\<close>

definition NewRequest :: "env \<Rightarrow> string \<Rightarrow> string \<Rightarrow> json option \<Rightarrow> string + Request" where
  "NewRequest e method url body =
     (case urlParse e url of
        Some err \<Rightarrow> Inl err
      | None \<Rightarrow> Inr \<lparr>Method = method, URL = url, Header = Map.empty, Body = body\<rparr>)"

definition Header_Set :: "string \<Rightarrow> string \<Rightarrow> Request \<Rightarrow> Request" where
  "Header_Set key val req = req\<lparr>Header := (Header req)(key \<mapsto> [val])\<rparr>"

text \<open>
  \<^verbatim>\<open>SetBasicAuth\<close>: \<^verbatim>\<open>r.Header.Set("Authorization", "Basic "+basicAuth(username, password))\<close>,
  where \<^verbatim>\<open>basicAuth\<close> is the base64 encoding of \<^verbatim>\<open>username + ":" + password\<close>.
\<close>

definition SetBasicAuth :: "string \<Rightarrow> string \<Rightarrow> Request \<Rightarrow> Request" where
  "SetBasicAuth username password req =
     Header_Set ''Authorization''
       (''Basic '' @ EncodeToString (username @ '':'' @ password)) req"

subsection \<open>Errors\<close>

text \<open>
  Why \<^verbatim>\<open>Decode\<close> failed: the body could not be read as JSON, or a value has not the type
  of its target.
\<close>

datatype decode_error = BodyError string | UnmarshalTypeError

text \<open>
  One constructor for each \<^verbatim>\<open>fmt.Errorf\<close> of the source, with the value it formats:
  \<^item> \<^verbatim>\<open>"failed to marshal payload: %v"\<close>
  \<^item> \<^verbatim>\<open>"failed to create request: %v"\<close>
  \<^item> \<^verbatim>\<open>"failed to send request: %v"\<close>
  \<^item> \<^verbatim>\<open>"failed to create issue, status: %d"\<close>
  \<^item> \<^verbatim>\<open>"failed to update issue, status: %d"\<close>
  \<^item> \<^verbatim>\<open>"failed to search issues, status: %d"\<close>
  \<^item> \<^verbatim>\<open>"failed to decode response: %v"\<close>
  \<^item> \<^verbatim>\<open>"issue key not found in response"\<close>
\<close>

datatype error =
    MarshalPayloadFailed string
  | CreateRequestFailed string
  | SendRequestFailed string
  | CreateIssueStatus int
  | UpdateIssueStatus int
  | SearchIssuesStatus int
  | DecodeResponseFailed decode_error
  | IssueKeyNotFound

subsection \<open>Package \<^verbatim>\<open>encoding/json\<close>: decoding\<close>

text \<open>
  \<^verbatim>\<open>Decode\<close> into an \<^verbatim>\<open>interface{}\<close> turns every number into a \<^verbatim>\<open>float64\<close>, and reports a
  number whose literal is out of range, that is one that rounds to an infinity.
\<close>

definition fitsFloat64 :: "rat \<Rightarrow> bool" where
  "fitsFloat64 q = (\<bar>q\<bar> < 2 ^ 1024 - 2 ^ 970)"

fun numbersFit :: "json \<Rightarrow> bool" where
  "numbersFit (JNumber q) = fitsFloat64 q"
| "numbersFit (JArray xs) = list_all numbersFit xs"
| "numbersFit (JObject kvs) = list_all (\<lambda>(k, v). numbersFit v) kvs"
| "numbersFit v = True"

text \<open>
  \<^verbatim>\<open>Decode\<close> into a \<^verbatim>\<open>map[string]interface{}\<close>: \<^verbatim>\<open>null\<close> leaves the map \<^verbatim>\<open>nil\<close>, where every
  lookup finds nothing; an object fills the map, a later member replacing an earlier
  one of the same name; any other value is a type error.
\<close>

definition Decode_map :: "string + json \<Rightarrow> decode_error + (string \<rightharpoonup> json)" where
  "Decode_map body =
     (case body of
        Inl err \<Rightarrow> Inl (BodyError err)
      | Inr JNull \<Rightarrow> Inr Map.empty
      | Inr (JObject kvs) \<Rightarrow>
          if numbersFit (JObject kvs) then Inr (map_of (rev kvs)) else Inl UnmarshalTypeError
      | Inr _ \<Rightarrow> Inl UnmarshalTypeError)"

text \<open>
  \<^verbatim>\<open>Decode\<close> into a struct finds the field of a member by its name, first exactly and
  then folded: letters are compared without case, and the Kelvin sign (bytes E2 84 AA)
  and the long s (bytes C5 BF) fold to K and S. No other character folds to an ASCII
  letter, so every other byte is kept as it is: whether a name folds to the name of one
  of the fields below does not depend on it.
\<close>

definition toUpperASCII :: "char \<Rightarrow> char" where
  "toUpperASCII c =
     (if CHR ''a'' \<le> c \<and> c \<le> CHR ''z'' then char_of (of_char c - (32::nat)) else c)"

function foldName :: "string \<Rightarrow> string" where
  "foldName [] = []"
| "foldName (c # cs) =
     (if c = CHR 0xE2 \<and> take 2 cs = [CHR 0x84, CHR 0xAA] then CHR ''K'' # foldName (drop 2 cs)
      else if c = CHR 0xC5 \<and> take 1 cs = [CHR 0xBF] then CHR ''S'' # foldName (drop 1 cs)
      else toUpperASCII c # foldName cs)"
  by pat_completeness auto
termination
  by (relation "measure length") auto

definition isField :: "string \<Rightarrow> string \<Rightarrow> bool" where
  "isField name key = (foldName key = foldName name)"

text \<open>
  The target of \<^verbatim>\<open>Decode\<close> in \<^verbatim>\<open>searchIssues\<close>. The source declares three nested anonymous
  structs; they are named here. A Go slice is its elements and, past its length, the
  slots of its backing array that held elements before.
\<close>

record IssueFields =
  Summary :: string

record Issue =
  Key :: string
  Fields :: IssueFields

record IssueSlice =
  elems :: "Issue list"
  spare :: "Issue list"

record SearchResult =
  Issues :: IssueSlice

definition zeroIssue :: Issue where
  "zeroIssue = \<lparr>Key = [], Fields = \<lparr>Summary = []\<rparr>\<rparr>"

definition nilSlice :: IssueSlice where
  "nilSlice = \<lparr>elems = [], spare = []\<rparr>"

text \<open>
  The decoder stores a value into a target that already has a value. A type error is
  recorded and decoding goes on; \<^verbatim>\<open>Decode\<close> returns the error at the end. Each function
  returns the new target and whether a type error occurred.

  Into a \<^verbatim>\<open>string\<close>: a JSON string is stored, \<^verbatim>\<open>null\<close> changes nothing, anything else is a
  type error.
\<close>

definition storeString :: "json \<Rightarrow> string \<Rightarrow> string \<times> bool" where
  "storeString j old =
     (case j of JString s \<Rightarrow> (s, False) | JNull \<Rightarrow> (old, False) | _ \<Rightarrow> (old, True))"

text \<open>
  Into a struct: the members of an object are stored one after the other, each into the
  field of its name; a member of no field is skipped; \<^verbatim>\<open>null\<close> changes nothing; anything
  else is a type error.
\<close>

fun storeFieldsMembers :: "(string \<times> json) list \<Rightarrow> IssueFields \<Rightarrow> IssueFields \<times> bool" where
  "storeFieldsMembers [] f = (f, False)"
| "storeFieldsMembers ((k, v) # kvs) f =
     (if isField ''summary'' k
      then (case storeString v (IssueFields.Summary f) of (s, e) \<Rightarrow>
              (case storeFieldsMembers kvs (f\<lparr>IssueFields.Summary := s\<rparr>) of (f', e') \<Rightarrow>
                 (f', e \<or> e')))
      else storeFieldsMembers kvs f)"

definition storeFields :: "json \<Rightarrow> IssueFields \<Rightarrow> IssueFields \<times> bool" where
  "storeFields j old =
     (case j of
        JObject kvs \<Rightarrow> storeFieldsMembers kvs old
      | JNull \<Rightarrow> (old, False)
      | _ \<Rightarrow> (old, True))"

fun storeIssueMembers :: "(string \<times> json) list \<Rightarrow> Issue \<Rightarrow> Issue \<times> bool" where
  "storeIssueMembers [] i = (i, False)"
| "storeIssueMembers ((k, v) # kvs) i =
     (if isField ''key'' k
      then (case storeString v (Key i) of (s, e) \<Rightarrow>
              (case storeIssueMembers kvs (i\<lparr>Key := s\<rparr>) of (i', e') \<Rightarrow> (i', e \<or> e')))
      else if isField ''fields'' k
      then (case storeFields v (Fields i) of (f, e) \<Rightarrow>
              (case storeIssueMembers kvs (i\<lparr>Fields := f\<rparr>) of (i', e') \<Rightarrow> (i', e \<or> e')))
      else storeIssueMembers kvs i)"

definition storeIssue :: "json \<Rightarrow> Issue \<Rightarrow> Issue \<times> bool" where
  "storeIssue j old =
     (case j of
        JObject kvs \<Rightarrow> storeIssueMembers kvs old
      | JNull \<Rightarrow> (old, False)
      | _ \<Rightarrow> (old, True))"

text \<open>
  Into a slice: element \<open>n\<close> of an array is stored into slot \<open>n\<close> of the slice, which
  holds what an earlier array left there, or else the zero value; the slice ends with
  the array. An empty array gives a new empty slice, \<^verbatim>\<open>null\<close> the \<^verbatim>\<open>nil\<close> slice; anything
  else is a type error.
\<close>

fun storeElems :: "json list \<Rightarrow> Issue list \<Rightarrow> Issue list \<times> bool" where
  "storeElems [] slots = ([], False)"
| "storeElems (x # xs) slots =
     (case storeIssue x (case slots of [] \<Rightarrow> zeroIssue | old # _ \<Rightarrow> old) of (i, e) \<Rightarrow>
        (case storeElems xs (tl slots) of (is, e') \<Rightarrow> (i # is, e \<or> e')))"

definition storeIssueSlice :: "json \<Rightarrow> IssueSlice \<Rightarrow> IssueSlice \<times> bool" where
  "storeIssueSlice j old =
     (case j of
        JArray xs \<Rightarrow>
          if xs = [] then (nilSlice, False)
          else (case storeElems xs (elems old @ spare old) of (is, e) \<Rightarrow>
                  (\<lparr>elems = is, spare = drop (length xs) (elems old @ spare old)\<rparr>, e))
      | JNull \<Rightarrow> (nilSlice, False)
      | _ \<Rightarrow> (old, True))"

fun storeResultMembers :: "(string \<times> json) list \<Rightarrow> SearchResult \<Rightarrow> SearchResult \<times> bool" where
  "storeResultMembers [] r = (r, False)"
| "storeResultMembers ((k, v) # kvs) r =
     (if isField ''issues'' k
      then (case storeIssueSlice v (Issues r) of (sl, e) \<Rightarrow>
              (case storeResultMembers kvs (r\<lparr>Issues := sl\<rparr>) of (r', e') \<Rightarrow> (r', e \<or> e')))
      else storeResultMembers kvs r)"

definition storeResult :: "json \<Rightarrow> SearchResult \<Rightarrow> SearchResult \<times> bool" where
  "storeResult j old =
     (case j of
        JObject kvs \<Rightarrow> storeResultMembers kvs old
      | JNull \<Rightarrow> (old, False)
      | _ \<Rightarrow> (old, True))"

text \<open>\<^verbatim>\<open>Decode(&result)\<close> in \<^verbatim>\<open>searchIssues\<close>, from the zero value of \<^verbatim>\<open>result\<close>.\<close>

definition Decode_result :: "string + json \<Rightarrow> decode_error + SearchResult" where
  "Decode_result body =
     (case body of
        Inl err \<Rightarrow> Inl (BodyError err)
      | Inr j \<Rightarrow>
          (case storeResult j \<lparr>Issues = nilSlice\<rparr> of (r, e) \<Rightarrow>
             if e then Inl UnmarshalTypeError else Inr r))"

text \<open>
  For the proofs, the storing of a list of values, one after the other, into one target:
  what a field of a struct ends with is what the values of the members of its name, in
  their order, leave in it.
\<close>

fun storeAll :: "(json \<Rightarrow> 'a \<Rightarrow> 'a \<times> bool) \<Rightarrow> json list \<Rightarrow> 'a \<Rightarrow> 'a \<times> bool" where
  "storeAll store [] old = (old, False)"
| "storeAll store (v # vs) old =
     (case store v old of (x, e) \<Rightarrow>
        (case storeAll store vs x of (x', e') \<Rightarrow> (x', e \<or> e')))"

text \<open>The values that an object gives for a field: those of the members of its name.\<close>

definition members :: "string \<Rightarrow> (string \<times> json) list \<Rightarrow> json list" where
  "members name kvs = map snd (filter (\<lambda>(k, v). isField name k) kvs)"

subsection \<open>\<^verbatim>\<open>createIssue\<close>\<close>

text \<open>
  Each operation is modelled in three parts: the request it builds, the call of
  \<^verbatim>\<open>httpClient.Do\<close>, and what it makes of the response. The request of \<^verbatim>\<open>createIssue\<close>
  (lines 80 to 109 of \<^verbatim>\<open>main.go\<close>): the members of the map literals are listed as written.
\<close>

definition createIssue_payload :: "CreateIssueArgs \<Rightarrow> json" where
  "createIssue_payload args =
     JObject [(''fields'', JObject
        [(''project'', JObject [(''key'', JString (ProjectKey args))]),
         (''summary'', JString (CreateIssueArgs.Summary args)),
         (''description'', JString (CreateIssueArgs.Description args)),
         (''issuetype'', JObject [(''name'', JString (IssueType args))])])]"

definition createIssue_request :: "env \<Rightarrow> JiraClient \<Rightarrow> CreateIssueArgs \<Rightarrow> error + Request" where
  "createIssue_request e c args =
     (let url = JiraConfig.URL (config c) @ getBaseAPIPath c @ ''/issue'' in
      case Marshal (createIssue_payload args) of
        Inl err \<Rightarrow> Inl (MarshalPayloadFailed err)
      | Inr body \<Rightarrow>
          (case NewRequest e ''POST'' url (Some body) of
             Inl err \<Rightarrow> Inl (CreateRequestFailed err)
           | Inr req \<Rightarrow>
               Inr (Header_Set ''Content-Type'' ''application/json''
                 (if isCloud c
                  then SetBasicAuth (Email (config c)) (APIKey (config c)) req
                  else Header_Set ''Authorization'' (''Bearer '' @ APIKey (config c)) req))))"

text \<open>
  The response of \<^verbatim>\<open>createIssue\<close> (lines 117 to 131). \<^verbatim>\<open>result["key"].(string)\<close> holds for a
  string only.
\<close>

definition createIssue_response :: "Response \<Rightarrow> error + string" where
  "createIssue_response resp =
     (if StatusCode resp \<noteq> StatusCreated then Inl (CreateIssueStatus (StatusCode resp))
      else case Decode_map (Response.Body resp) of
        Inl err \<Rightarrow> Inl (DecodeResponseFailed err)
      | Inr result \<Rightarrow>
          (case result ''key'' of
             Some (JString issueKey) \<Rightarrow> Inr issueKey
           | _ \<Rightarrow> Inl IssueKeyNotFound))"

definition createIssue :: "env \<Rightarrow> JiraClient \<Rightarrow> CreateIssueArgs \<Rightarrow> error + string" where
  "createIssue e c args =
     (case createIssue_request e c args of
        Inl err \<Rightarrow> Inl err
      | Inr req \<Rightarrow>
          (case Do e (httpClient c) req of
             Inl err \<Rightarrow> Inl (SendRequestFailed err)
           | Inr resp \<Rightarrow> createIssue_response resp))"

subsection \<open>\<^verbatim>\<open>updateIssue\<close>\<close>

text \<open>
  \<^verbatim>\<open>payload["fields"].(map[string]interface{})[key] = val\<close>: the type assertion panics
  (\<^verbatim>\<open>None\<close>) unless \<^verbatim>\<open>payload["fields"]\<close> is a map; the map it yields is the one the payload
  holds, so the payload sees the assignment.
\<close>

definition setField :: "string \<Rightarrow> json \<Rightarrow> (string \<times> json) list \<Rightarrow> (string \<times> json) list option" where
  "setField key val payload =
     (case map_of payload ''fields'' of
        Some (JObject m) \<Rightarrow>
          Some (AList.update ''fields'' (JObject (AList.update key val m)) payload)
      | _ \<Rightarrow> None)"

text \<open>Lines 137 to 146.\<close>

definition updateIssue_payload :: "UpdateIssueArgs \<Rightarrow> (string \<times> json) list option" where
  "updateIssue_payload args =
     (let payload = [(''fields'', JObject [])] in
      case (if UpdateIssueArgs.Summary args \<noteq> []
            then setField ''summary'' (JString (UpdateIssueArgs.Summary args)) payload
            else Some payload) of
        None \<Rightarrow> None
      | Some payload \<Rightarrow>
          (if UpdateIssueArgs.Description args \<noteq> []
           then setField ''description'' (JString (UpdateIssueArgs.Description args)) payload
           else Some payload))"

text \<open>Lines 136 to 163; \<^verbatim>\<open>None\<close> is a panic.\<close>

definition updateIssue_request ::
  "env \<Rightarrow> JiraClient \<Rightarrow> UpdateIssueArgs \<Rightarrow> (error + Request) option" where
  "updateIssue_request e c args =
     (let url = JiraConfig.URL (config c) @ getBaseAPIPath c @ ''/issue/'' @ IssueKey args in
      case updateIssue_payload args of
        None \<Rightarrow> None
      | Some payload \<Rightarrow> Some
          (case Marshal (JObject payload) of
             Inl err \<Rightarrow> Inl (MarshalPayloadFailed err)
           | Inr body \<Rightarrow>
               (case NewRequest e ''PUT'' url (Some body) of
                  Inl err \<Rightarrow> Inl (CreateRequestFailed err)
                | Inr req \<Rightarrow>
                    Inr (Header_Set ''Content-Type'' ''application/json''
                      (if isCloud c
                       then SetBasicAuth (Email (config c)) (APIKey (config c)) req
                       else Header_Set ''Authorization'' (''Bearer '' @ APIKey (config c)) req)))))"

text \<open>Lines 171 to 175: the body of the response is not read.\<close>

definition updateIssue_response :: "UpdateIssueArgs \<Rightarrow> Response \<Rightarrow> error + string" where
  "updateIssue_response args resp =
     (if StatusCode resp \<noteq> StatusNoContent \<and> StatusCode resp \<noteq> StatusOK
      then Inl (UpdateIssueStatus (StatusCode resp))
      else Inr (IssueKey args))"

definition updateIssue :: "env \<Rightarrow> JiraClient \<Rightarrow> UpdateIssueArgs \<Rightarrow> (error + string) option" where
  "updateIssue e c args =
     (case updateIssue_request e c args of
        None \<Rightarrow> None
      | Some (Inl err) \<Rightarrow> Some (Inl err)
      | Some (Inr req) \<Rightarrow> Some
          (case Do e (httpClient c) req of
             Inl err \<Rightarrow> Inl (SendRequestFailed err)
           | Inr resp \<Rightarrow> updateIssue_response args resp))"

subsection \<open>\<^verbatim>\<open>searchIssues\<close>\<close>

text \<open>Lines 180 to 191.\<close>

definition searchIssues_request :: "env \<Rightarrow> JiraClient \<Rightarrow> SearchIssuesArgs \<Rightarrow> error + Request" where
  "searchIssues_request e c args =
     (let url = JiraConfig.URL (config c) @ getBaseAPIPath c @ ''/search?jql='' @ JQL args
                  @ ''&fields=summary'' in
      case NewRequest e ''GET'' url None of
        Inl err \<Rightarrow> Inl (CreateRequestFailed err)
      | Inr req \<Rightarrow>
          Inr (Header_Set ''Content-Type'' ''application/json''
            (if isCloud c
             then SetBasicAuth (Email (config c)) (APIKey (config c)) req
             else Header_Set ''Authorization'' (''Bearer '' @ APIKey (config c)) req)))"

text \<open>
  The loop of lines 215 to 221 appends one \<^verbatim>\<open>map[string]string\<close> for each issue; such a
  map is the list of its two members.
\<close>

fun appendIssues :: "(string \<times> string) list list \<Rightarrow> Issue list \<Rightarrow> (string \<times> string) list list" where
  "appendIssues issues [] = issues"
| "appendIssues issues (issue # rest) =
     appendIssues
       (issues @ [[(''key'', Key issue), (''summary'', IssueFields.Summary (Fields issue))]])
       rest"

text \<open>Lines 199 to 223.\<close>

definition searchIssues_response :: "Response \<Rightarrow> error + (string \<times> string) list list" where
  "searchIssues_response resp =
     (if StatusCode resp \<noteq> StatusOK then Inl (SearchIssuesStatus (StatusCode resp))
      else case Decode_result (Response.Body resp) of
        Inl err \<Rightarrow> Inl (DecodeResponseFailed err)
      | Inr result \<Rightarrow> Inr (appendIssues [] (elems (Issues result))))"

definition searchIssues ::
  "env \<Rightarrow> JiraClient \<Rightarrow> SearchIssuesArgs \<Rightarrow> error + (string \<times> string) list list" where
  "searchIssues e c args =
     (case searchIssues_request e c args of
        Inl err \<Rightarrow> Inl err
      | Inr req \<Rightarrow>
          (case Do e (httpClient c) req of
             Inl err \<Rightarrow> Inl (SendRequestFailed err)
           | Inr resp \<Rightarrow> searchIssues_response resp))"

subsection \<open>The resource and the tools registered in \<^verbatim>\<open>main\<close>\<close>

text \<open>
  The text of a content is a plain string, or the text that \<^verbatim>\<open>json.Marshal\<close> wrote, which
  is given by its document. The constructors of the protocol library keep their names.
\<close>

datatype content_text = Text string | JSONText json

datatype Content = NewTextContent content_text

datatype ToolResponse = NewToolResponse "Content list"

datatype EmbeddedResource = NewTextEmbeddedResource string content_text string

datatype ResourceResponse = NewResourceResponse "EmbeddedResource list"

definition ServerName :: string where
  "ServerName = ''Jira MCP Server''"

definition ServerVersion :: string where
  "ServerVersion = ''1.0.0''"

text \<open>
  The handler of the resource \<^verbatim>\<open>info://server\<close> (lines 243 to 260). It has no parameter;
  \<^verbatim>\<open>None\<close> is the panic of \<^verbatim>\<open>mustMarshal\<close>.
\<close>

definition info_server :: "unit \<Rightarrow> (error + ResourceResponse) option" where
  "info_server u =
     (let info = JObject
        [(''name'', JString ServerName),
         (''version'', JString ServerVersion),
         (''actions'', JArray
            [JString ''create_issue'', JString ''update_issue'', JString ''search_issues''])] in
      case mustMarshal info of
        None \<Rightarrow> None
      | Some b \<Rightarrow> Some (Inr (NewResourceResponse
          [NewTextEmbeddedResource ''info://server'' (JSONText b) ''application/json''])))"

text \<open>The handler of the tool \<^verbatim>\<open>create_issue\<close> (lines 267 to 276).\<close>

definition create_issue :: "env \<Rightarrow> CreateIssueArgs \<Rightarrow> error + ToolResponse" where
  "create_issue e args =
     (let client = NewJiraClient (toLowerUnicode e) (CreateIssueArgs.JiraConfig args) in
      case createIssue e client args of
        Inl err \<Rightarrow> Inl err
      | Inr issueKey \<Rightarrow>
          Inr (NewToolResponse [NewTextContent (Text (''Created issue: '' @ issueKey))]))"

text \<open>The handler of the tool \<^verbatim>\<open>update_issue\<close> (lines 283 to 292).\<close>

definition update_issue :: "env \<Rightarrow> UpdateIssueArgs \<Rightarrow> (error + ToolResponse) option" where
  "update_issue e args =
     (let client = NewJiraClient (toLowerUnicode e) (UpdateIssueArgs.JiraConfig args) in
      case updateIssue e client args of
        None \<Rightarrow> None
      | Some (Inl err) \<Rightarrow> Some (Inl err)
      | Some (Inr issueKey) \<Rightarrow>
          Some (Inr (NewToolResponse [NewTextContent (Text (''Updated issue: '' @ issueKey))])))"

text \<open>
  The handler of the tool \<^verbatim>\<open>search_issues\<close> (lines 299 to 308). \<^verbatim>\<open>mustMarshal\<close> is given the
  slice of maps as the array of objects it is.
\<close>

definition issuesJSON :: "(string \<times> string) list list \<Rightarrow> json" where
  "issuesJSON issues = JArray (map (\<lambda>m. JObject (map (\<lambda>(k, v). (k, JString v)) m)) issues)"

definition search_issues :: "env \<Rightarrow> SearchIssuesArgs \<Rightarrow> (error + ToolResponse) option" where
  "search_issues e args =
     (let client = NewJiraClient (toLowerUnicode e) (SearchIssuesArgs.JiraConfig args) in
      case searchIssues e client args of
        Inl err \<Rightarrow> Some (Inl err)
      | Inr issues \<Rightarrow>
          (case mustMarshal (issuesJSON issues) of
             None \<Rightarrow> None
           | Some b \<Rightarrow> Some (Inr (NewToolResponse [NewTextContent (JSONText b)]))))"

subsection \<open>The tables of the specification\<close>

text \<open>
  The specification gives, for each variant, the prefix of the API path and the
  authentication: HTTP Basic with the e-mail as user name and the credential as password
  for Cloud, a bearer token for DataCenter. As a value of the \<^verbatim>\<open>Authorization\<close> header:
\<close>

fun apiPrefix :: "DeploymentVariant \<Rightarrow> string" where
  "apiPrefix Cloud = ''/rest/api/3''"
| "apiPrefix DataCenter = ''/rest/api/2''"

fun authorization :: "DeploymentVariant \<Rightarrow> JiraConfig \<Rightarrow> string" where
  "authorization Cloud cfg = ''Basic '' @ EncodeToString (Email cfg @ '':'' @ APIKey cfg)"
| "authorization DataCenter cfg = ''Bearer '' @ APIKey cfg"

text \<open>
  The specification's view of one element of the array \<^verbatim>\<open>issues\<close>: the pair of its \<^verbatim>\<open>key\<close>
  and its \<^verbatim>\<open>fields.summary\<close>. It is defined for an object that gives each of the two at
  most once, as a string; what the object does not give is the empty string. Any other
  member of the object is of no account.
\<close>

definition stringOf :: "json list \<Rightarrow> string option" where
  "stringOf vs = (case vs of [] \<Rightarrow> Some [] | [JString s] \<Rightarrow> Some s | _ \<Rightarrow> None)"

fun issueView :: "json \<Rightarrow> (string \<times> string) option" where
  "issueView (JObject es) =
     (case stringOf (members ''key'' es) of
        None \<Rightarrow> None
      | Some k \<Rightarrow>
          (case members ''fields'' es of
             [] \<Rightarrow> Some (k, [])
           | [JObject fs] \<Rightarrow>
               (case stringOf (members ''summary'' fs) of
                  None \<Rightarrow> None
                | Some s \<Rightarrow> Some (k, s))
           | _ \<Rightarrow> None))"
| "issueView j = None"

text \<open>
  The scheme a request authenticates with: the first word of its \<^verbatim>\<open>Authorization\<close>
  header.
\<close>

definition authScheme :: "Request \<Rightarrow> string option" where
  "authScheme req =
     (case Header req ''Authorization'' of
        Some [v] \<Rightarrow> Some (takeWhile (\<lambda>ch. ch \<noteq> CHR '' '') v)
      | _ \<Rightarrow> None)"

subsection \<open>Stub upstreams\<close>

text \<open>
  An upstream that accepts every URL and answers every request with one response; two
  configurations, one of each variant.
\<close>

definition stubUpstream :: "int \<Rightarrow> string + json \<Rightarrow> env" where
  "stubUpstream code body =
     \<lparr>toLowerUnicode = id,
      urlParse = (\<lambda>url. None),
      Do = (\<lambda>cl req. Inr \<lparr>StatusCode = code, Response.Body = body\<rparr>)\<rparr>"

definition cloudConfig :: JiraConfig where
  "cloudConfig =
     \<lparr>JiraConfig.URL = ''https://team.atlassian.net'', APIKey = ''tok'', Email = ''a@b.c''\<rparr>"

definition serverConfig :: JiraConfig where
  "serverConfig =
     \<lparr>JiraConfig.URL = ''https://jira.example.com'', APIKey = ''tok'', Email = ''a@b.c''\<rparr>"

definition createArgs :: "JiraConfig \<Rightarrow> CreateIssueArgs" where
  "createArgs cfg =
     \<lparr>CreateIssueArgs.JiraConfig = cfg, ProjectKey = ''PROJ'',
      CreateIssueArgs.Summary = ''Test Issue'', CreateIssueArgs.Description = [],
      IssueType = ''Task''\<rparr>"

definition updateArgs :: "JiraConfig \<Rightarrow> string \<Rightarrow> string \<Rightarrow> UpdateIssueArgs" where
  "updateArgs cfg summary description =
     \<lparr>UpdateIssueArgs.JiraConfig = cfg, IssueKey = ''PROJ-123'',
      UpdateIssueArgs.Summary = summary, UpdateIssueArgs.Description = description\<rparr>"

definition searchArgs :: "JiraConfig \<Rightarrow> SearchIssuesArgs" where
  "searchArgs cfg = \<lparr>SearchIssuesArgs.JiraConfig = cfg, JQL = ''project=PROJ''\<rparr>"

section \<open>Properties\<close>

subsection \<open>Substring search\<close>

lemma HasPrefix_iff: "HasPrefix s p \<longleftrightarrow> (\<exists>post. s = p @ post)"
proof
  assume "HasPrefix s p"
  then have "s = p @ drop (length p) s"
    unfolding HasPrefix_def by (metis append_take_drop_id)
  then show "\<exists>post. s = p @ post" ..
next
  assume "\<exists>post. s = p @ post"
  then show "HasPrefix s p"
    unfolding HasPrefix_def by auto
qed

lemma Contains_iff: "Contains s sub \<longleftrightarrow> (\<exists>pre post. s = pre @ sub @ post)"
proof (induction s)
  case Nil
  then show ?case by simp
next
  case (Cons c s)
  show ?case
  proof
    assume "Contains (c # s) sub"
    then consider "HasPrefix (c # s) sub" | "Contains s sub" by auto
    then show "\<exists>pre post. c # s = pre @ sub @ post"
    proof cases
      case 1
      then obtain post where "c # s = sub @ post" using HasPrefix_iff by blast
      then have "c # s = [] @ sub @ post" by simp
      then show ?thesis by blast
    next
      case 2
      then obtain pre post where "s = pre @ sub @ post" using Cons.IH by blast
      then have "c # s = (c # pre) @ sub @ post" by simp
      then show ?thesis by blast
    qed
  next
    assume "\<exists>pre post. c # s = pre @ sub @ post"
    then obtain pre post where eq: "c # s = pre @ sub @ post" by blast
    show "Contains (c # s) sub"
    proof (cases pre)
      case Nil
      with eq have "HasPrefix (c # s) sub" using HasPrefix_iff by auto
      then show ?thesis by simp
    next
      case (Cons d pre')
      with eq have "s = pre' @ sub @ post" by simp
      then have "Contains s sub" using Cons.IH by blast
      then show ?thesis by simp
    qed
  qed
qed

lemma map_eq_sandwichD:
  assumes "map f s = pre @ sub @ post"
  shows "\<exists>a b c. s = a @ b @ c \<and> map f a = pre \<and> map f b = sub \<and> map f c = post"
proof -
  from assms have "\<exists>us vs. s = us @ vs \<and> pre = map f us \<and> sub @ post = map f vs"
    by (simp only: map_eq_append_conv)
  then obtain a r where s: "s = a @ r" and a: "pre = map f a" and r: "sub @ post = map f r"
    by blast
  from r have "\<exists>us vs. r = us @ vs \<and> sub = map f us \<and> post = map f vs"
    by (simp only: append_eq_map_conv)
  then obtain b c where bc: "r = b @ c" "sub = map f b" "post = map f c"
    by blast
  have "s = a @ b @ c \<and> map f a = pre \<and> map f b = sub \<and> map f c = post"
    using s a bc by simp
  then show ?thesis by blast
qed

lemma map_contains_iff:
  "(\<exists>pre post. map f s = pre @ sub @ post) \<longleftrightarrow>
   (\<exists>a b c. s = a @ b @ c \<and> map f b = sub)"
proof
  assume "\<exists>pre post. map f s = pre @ sub @ post"
  then obtain pre post where "map f s = pre @ sub @ post" by blast
  from map_eq_sandwichD [OF this]
  show "\<exists>a b c. s = a @ b @ c \<and> map f b = sub" by blast
next
  assume "\<exists>a b c. s = a @ b @ c \<and> map f b = sub"
  then obtain a b c where "s = a @ b @ c" and "map f b = sub" by blast
  then have "map f s = map f a @ sub @ map f c" by simp
  then show "\<exists>pre post. map f s = pre @ sub @ post" by blast
qed

subsection \<open>The requests, written out\<close>

lemma variant_simps:
  "isCloud c \<Longrightarrow> variant c = Cloud" "\<not> isCloud c \<Longrightarrow> variant c = DataCenter"
  by (simp_all add: variant_def)

lemma getBaseAPIPath_variant: "getBaseAPIPath c = apiPrefix (variant c)"
  by (simp add: getBaseAPIPath_def variant_def)

lemma authorize_explicit:
  "Header_Set ''Content-Type'' ''application/json''
     (if isCloud c
      then SetBasicAuth (Email (config c)) (APIKey (config c)) req
      else Header_Set ''Authorization'' (''Bearer '' @ APIKey (config c)) req)
   = req\<lparr>Header := (Header req)(''Authorization'' \<mapsto> [authorization (variant c) (config c)],
                                  ''Content-Type'' \<mapsto> [''application/json''])\<rparr>"
  by (simp add: Header_Set_def SetBasicAuth_def variant_def)

lemma createIssue_request_explicit:
  "createIssue_request e c args =
     (case urlParse e (JiraConfig.URL (config c) @ apiPrefix (variant c) @ ''/issue'') of
        Some err \<Rightarrow> Inl (CreateRequestFailed err)
      | None \<Rightarrow> Inr
          \<lparr>Method = ''POST'',
           URL = JiraConfig.URL (config c) @ apiPrefix (variant c) @ ''/issue'',
           Header = [''Authorization'' \<mapsto> [authorization (variant c) (config c)],
                     ''Content-Type'' \<mapsto> [''application/json'']],
           Body = Some (sortKeys (createIssue_payload args))\<rparr>)"
  unfolding createIssue_request_def Let_def Marshal_def NewRequest_def authorize_explicit
    getBaseAPIPath_variant
  by (simp split: option.split)

lemma updateIssue_payload_explicit:
  "updateIssue_payload args =
     Some [(''fields'', JObject
       ((if UpdateIssueArgs.Summary args \<noteq> []
         then [(''summary'', JString (UpdateIssueArgs.Summary args))] else []) @
        (if UpdateIssueArgs.Description args \<noteq> []
         then [(''description'', JString (UpdateIssueArgs.Description args))] else [])))]"
  by (simp add: updateIssue_payload_def setField_def)

lemma updateIssue_body_sorted:
  "sortKeys (JObject [(''fields'', JObject
       ((if s \<noteq> [] then [(''summary'', JString s)] else []) @
        (if d \<noteq> [] then [(''description'', JString d)] else [])))])
   = JObject [(''fields'', JObject
       ((if d \<noteq> [] then [(''description'', JString d)] else []) @
        (if s \<noteq> [] then [(''summary'', JString s)] else [])))]"
  by simp

lemma updateIssue_request_explicit:
  "updateIssue_request e c args =
     Some (case urlParse e (JiraConfig.URL (config c) @ apiPrefix (variant c) @ ''/issue/''
                             @ IssueKey args) of
        Some err \<Rightarrow> Inl (CreateRequestFailed err)
      | None \<Rightarrow> Inr
          \<lparr>Method = ''PUT'',
           URL = JiraConfig.URL (config c) @ apiPrefix (variant c) @ ''/issue/'' @ IssueKey args,
           Header = [''Authorization'' \<mapsto> [authorization (variant c) (config c)],
                     ''Content-Type'' \<mapsto> [''application/json'']],
           Body = Some (JObject [(''fields'', JObject
             ((if UpdateIssueArgs.Description args \<noteq> []
               then [(''description'', JString (UpdateIssueArgs.Description args))] else []) @
              (if UpdateIssueArgs.Summary args \<noteq> []
               then [(''summary'', JString (UpdateIssueArgs.Summary args))] else [])))])\<rparr>)"
  unfolding updateIssue_request_def Let_def Marshal_def NewRequest_def authorize_explicit
    getBaseAPIPath_variant updateIssue_payload_explicit option.case sum.case
    updateIssue_body_sorted
  by (simp split: option.split)

lemma searchIssues_request_explicit:
  "searchIssues_request e c args =
     (case urlParse e (JiraConfig.URL (config c) @ apiPrefix (variant c) @ ''/search?jql=''
                        @ JQL args @ ''&fields=summary'') of
        Some err \<Rightarrow> Inl (CreateRequestFailed err)
      | None \<Rightarrow> Inr
          \<lparr>Method = ''GET'',
           URL = JiraConfig.URL (config c) @ apiPrefix (variant c) @ ''/search?jql=''
                   @ JQL args @ ''&fields=summary'',
           Header = [''Authorization'' \<mapsto> [authorization (variant c) (config c)],
                     ''Content-Type'' \<mapsto> [''application/json'']],
           Body = None\<rparr>)"
  unfolding searchIssues_request_def Let_def NewRequest_def authorize_explicit
    getBaseAPIPath_variant
  by (simp split: option.split)


subsection \<open>Deployment variant\<close>

text \<open>
  C1. The variant of a configuration is Cloud exactly when its lower-cased URL contains
  \<^verbatim>\<open>.atlassian.net\<close>, and DataCenter otherwise; the resolution is a total function of the
  URL. For a URL of ASCII bytes this is the case-insensitive search: some substring of
  the URL itself lower-cases, byte by byte, to \<^verbatim>\<open>.atlassian.net\<close>.
\<close>

theorem variant_resolution:
  "variant (NewJiraClient mapLower cfg) =
     (if \<exists>pre post. ToLower mapLower (JiraConfig.URL cfg) = pre @ ''.atlassian.net'' @ post
      then Cloud else DataCenter)
   \<and> (list_all isASCII (JiraConfig.URL cfg) \<longrightarrow>
        (variant (NewJiraClient mapLower cfg) = Cloud) =
        (\<exists>pre mid post. JiraConfig.URL cfg = pre @ mid @ post
           \<and> map toLowerASCII mid = ''.atlassian.net''))"
proof (intro conjI impI)
  show "variant (NewJiraClient mapLower cfg) =
     (if \<exists>pre post. ToLower mapLower (JiraConfig.URL cfg) = pre @ ''.atlassian.net'' @ post
      then Cloud else DataCenter)"
    unfolding variant_def NewJiraClient_def by (simp add: Contains_iff)
next
  assume ascii: "list_all isASCII (JiraConfig.URL cfg)"
  have "(variant (NewJiraClient mapLower cfg) = Cloud) =
        (\<exists>pre post. map toLowerASCII (JiraConfig.URL cfg) = pre @ ''.atlassian.net'' @ post)"
    unfolding variant_def NewJiraClient_def ToLower_def using ascii
    by (simp add: Contains_iff)
  also have "\<dots> = (\<exists>pre mid post. JiraConfig.URL cfg = pre @ mid @ post
           \<and> map toLowerASCII mid = ''.atlassian.net'')"
    by (rule map_contains_iff)
  finally show "(variant (NewJiraClient mapLower cfg) = Cloud) =
        (\<exists>pre mid post. JiraConfig.URL cfg = pre @ mid @ post
           \<and> map toLowerASCII mid = ''.atlassian.net'')" .
qed

theorem variant_resolution_witness:
  "list_all isASCII ''https://Team.Atlassian.NET''
   \<and> variant (NewJiraClient id
        \<lparr>JiraConfig.URL = ''https://Team.Atlassian.NET'', APIKey = ''k'', Email = ''e''\<rparr>) = Cloud
   \<and> (\<exists>pre mid post. ''https://Team.Atlassian.NET'' = pre @ mid @ post
           \<and> map toLowerASCII mid = ''.atlassian.net'')"
proof -
  define cfg where "cfg = \<lparr>JiraConfig.URL = ''https://Team.Atlassian.NET'', APIKey = ''k'', Email = ''e''\<rparr>"
  have url: "JiraConfig.URL cfg = ''https://Team.Atlassian.NET''"
    by (simp add: cfg_def)
  have ascii: "list_all isASCII ''https://Team.Atlassian.NET''"
    by (simp add: isASCII_def)
  have lower: "map toLowerASCII ''https://Team.Atlassian.NET'' = ''https://team.atlassian.net''"
    by (simp add: toLowerASCII_def char_of_def bit_iff_odd_drop_bit)
  have found: "Contains ''https://team.atlassian.net'' ''.atlassian.net''"
    by (simp add: HasPrefix_def)
  have cloud: "variant (NewJiraClient id cfg) = Cloud"
    unfolding variant_def NewJiraClient_def ToLower_def url
    using ascii lower found by simp
  have "list_all isASCII (JiraConfig.URL cfg) \<longrightarrow>
        (variant (NewJiraClient id cfg) = Cloud) =
        (\<exists>pre mid post. JiraConfig.URL cfg = pre @ mid @ post
           \<and> map toLowerASCII mid = ''.atlassian.net'')"
    using variant_resolution [of id cfg] by (rule conjunct2)
  then have "(variant (NewJiraClient id cfg) = Cloud) =
        (\<exists>pre mid post. ''https://Team.Atlassian.NET'' = pre @ mid @ post
           \<and> map toLowerASCII mid = ''.atlassian.net'')"
    unfolding url using ascii by (rule mp)
  then have ex: "\<exists>pre mid post. ''https://Team.Atlassian.NET'' = pre @ mid @ post
           \<and> map toLowerASCII mid = ''.atlassian.net''"
    using cloud by (rule iffD1)
  from ascii cloud ex show ?thesis
    unfolding cfg_def by (intro conjI)
qed

subsection \<open>The stub configurations\<close>

lemma config_NewJiraClient: "config (NewJiraClient lower cfg) = cfg"
  by (simp add: NewJiraClient_def)

lemma EncodeToString_example: "EncodeToString ''a@b.c:tok'' = ''YUBiLmM6dG9r''"
  by (simp add: EncodeToString_def sextet_def encodeStd_def)

lemma variant_cloudConfig: "variant (NewJiraClient id cloudConfig) = Cloud"
  by (simp add: variant_def NewJiraClient_def cloudConfig_def ToLower_def isASCII_def
      toLowerASCII_def HasPrefix_def)

lemma variant_serverConfig: "variant (NewJiraClient id serverConfig) = DataCenter"
  by (simp add: variant_def NewJiraClient_def serverConfig_def ToLower_def isASCII_def
      toLowerASCII_def HasPrefix_def)

subsection \<open>The body of a create request\<close>




subsection \<open>The body of an update request\<close>

lemma updateIssue_request_built:
  assumes "updateIssue_request e c args = Some (Inr req)"
  shows "Request.Body req = Some (JObject [(''fields'', JObject
             ((if UpdateIssueArgs.Description args \<noteq> []
               then [(''description'', JString (UpdateIssueArgs.Description args))] else []) @
              (if UpdateIssueArgs.Summary args \<noteq> []
               then [(''summary'', JString (UpdateIssueArgs.Summary args))] else [])))])"
  using assms unfolding updateIssue_request_explicit
  by (auto split: option.splits)

lemma updateIssue_built:
  assumes "updateIssue_request e c args = Some (Inr req)"
  shows "updateIssue e c args = Some
          (case Do e (httpClient c) req of
             Inl err \<Rightarrow> Inl (SendRequestFailed err)
           | Inr resp \<Rightarrow> updateIssue_response args resp)"
  using assms by (simp add: updateIssue_def)

text \<open>
  C4. The body of the request of \<^verbatim>\<open>updateIssue\<close> is the object \<^verbatim>\<open>{"fields": {...}}\<close> whose
  inner object has the member \<^verbatim>\<open>description\<close> exactly when the description of the
  arguments is not empty, and the member \<^verbatim>\<open>summary\<close> exactly when the summary is not
  empty, each with its value. With only the summary set the body is
  \<^verbatim>\<open>{"fields":{"summary":value}}\<close>; with both empty it is \<^verbatim>\<open>{"fields":{}}\<close>. Building the
  request never panics, it fails only when the URL does not parse, and the request built
  is the one handed to the HTTP client: an update of no field is sent, not rejected.
\<close>

theorem update_body_fields:
  "updateIssue_request e c args \<noteq> None
   \<and> (urlParse e (JiraConfig.URL (config c) @ getBaseAPIPath c @ ''/issue/'' @ IssueKey args)
         = None \<longrightarrow> (\<exists>req. updateIssue_request e c args = Some (Inr req)))
   \<and> (updateIssue_request e c args = Some (Inr req) \<longrightarrow>
        Request.Body req = Some (JObject [(''fields'', JObject
          ((if UpdateIssueArgs.Description args \<noteq> []
            then [(''description'', JString (UpdateIssueArgs.Description args))] else []) @
           (if UpdateIssueArgs.Summary args \<noteq> []
            then [(''summary'', JString (UpdateIssueArgs.Summary args))] else [])))])
        \<and> (UpdateIssueArgs.Summary args \<noteq> [] \<and> UpdateIssueArgs.Description args = [] \<longrightarrow>
             Request.Body req = Some (JObject [(''fields'', JObject
               [(''summary'', JString (UpdateIssueArgs.Summary args))])]))
        \<and> (UpdateIssueArgs.Summary args = [] \<and> UpdateIssueArgs.Description args = [] \<longrightarrow>
             Request.Body req = Some (JObject [(''fields'', JObject [])]))
        \<and> updateIssue e c args = Some
             (case Do e (httpClient c) req of
                Inl err \<Rightarrow> Inl (SendRequestFailed err)
              | Inr resp \<Rightarrow> updateIssue_response args resp))"
proof (intro conjI impI)
  show "updateIssue_request e c args \<noteq> None"
    unfolding updateIssue_request_explicit by simp
next
  assume "urlParse e (JiraConfig.URL (config c) @ getBaseAPIPath c @ ''/issue/'' @ IssueKey args)
         = None"
  then show "\<exists>req. updateIssue_request e c args = Some (Inr req)"
    unfolding updateIssue_request_explicit getBaseAPIPath_variant by simp
next
  assume built: "updateIssue_request e c args = Some (Inr req)"
  note body = updateIssue_request_built [OF built]
  show "Request.Body req = Some (JObject [(''fields'', JObject
          ((if UpdateIssueArgs.Description args \<noteq> []
            then [(''description'', JString (UpdateIssueArgs.Description args))] else []) @
           (if UpdateIssueArgs.Summary args \<noteq> []
            then [(''summary'', JString (UpdateIssueArgs.Summary args))] else [])))])"
    by (rule body)
  show "updateIssue e c args = Some
             (case Do e (httpClient c) req of
                Inl err \<Rightarrow> Inl (SendRequestFailed err)
              | Inr resp \<Rightarrow> updateIssue_response args resp)"
    by (rule updateIssue_built [OF built])
  {
    assume "UpdateIssueArgs.Summary args \<noteq> [] \<and> UpdateIssueArgs.Description args = []"
    then show "Request.Body req = Some (JObject [(''fields'', JObject
               [(''summary'', JString (UpdateIssueArgs.Summary args))])])"
      using body by simp
  }
  {
    assume "UpdateIssueArgs.Summary args = [] \<and> UpdateIssueArgs.Description args = []"
    then show "Request.Body req = Some (JObject [(''fields'', JObject [])])"
      using body by simp
  }
qed

theorem update_body_fields_witness:
  "(\<exists>req. updateIssue_request (stubUpstream 204 (Inl [])) (NewJiraClient id serverConfig)
            (updateArgs serverConfig ''New title'' []) = Some (Inr req)
      \<and> Request.Body req
          = Some (JObject [(''fields'', JObject [(''summary'', JString ''New title'')])]))
   \<and> (\<exists>req. updateIssue_request (stubUpstream 204 (Inl [])) (NewJiraClient id serverConfig)
            (updateArgs serverConfig [] []) = Some (Inr req)
      \<and> Request.Body req = Some (JObject [(''fields'', JObject [])])
      \<and> updateIssue (stubUpstream 204 (Inl [])) (NewJiraClient id serverConfig)
            (updateArgs serverConfig [] []) = Some (Inr ''PROJ-123''))"
proof (rule conjI)
  define e where "e = stubUpstream 204 (Inl [])"
  define c where "c = NewJiraClient id serverConfig"
  define args where "args = updateArgs serverConfig ''New title'' []"
  have parses: "urlParse e (JiraConfig.URL (config c) @ getBaseAPIPath c @ ''/issue/''
      @ IssueKey args) = None"
    by (simp add: e_def stubUpstream_def)
  have summary: "UpdateIssueArgs.Summary args \<noteq> [] \<and> UpdateIssueArgs.Description args = []"
    by (simp add: args_def updateArgs_def)
  have title: "UpdateIssueArgs.Summary args = ''New title''"
    by (simp add: args_def updateArgs_def)
  from update_body_fields [of e c args] parses
  obtain req where req: "updateIssue_request e c args = Some (Inr req)"
    by blast
  from update_body_fields [of e c args req] req summary
  have "Request.Body req = Some (JObject [(''fields'', JObject
               [(''summary'', JString (UpdateIssueArgs.Summary args))])])"
    by blast
  then have "Request.Body req
      = Some (JObject [(''fields'', JObject [(''summary'', JString ''New title'')])])"
    unfolding title .
  with req show "\<exists>req. updateIssue_request (stubUpstream 204 (Inl []))
            (NewJiraClient id serverConfig)
            (updateArgs serverConfig ''New title'' []) = Some (Inr req)
      \<and> Request.Body req
          = Some (JObject [(''fields'', JObject [(''summary'', JString ''New title'')])])"
    unfolding e_def c_def args_def by blast
next
  define e where "e = stubUpstream 204 (Inl [])"
  define c where "c = NewJiraClient id serverConfig"
  define args where "args = updateArgs serverConfig [] []"
  have parses: "urlParse e (JiraConfig.URL (config c) @ getBaseAPIPath c @ ''/issue/''
      @ IssueKey args) = None"
    by (simp add: e_def stubUpstream_def)
  have empty: "UpdateIssueArgs.Summary args = [] \<and> UpdateIssueArgs.Description args = []"
    by (simp add: args_def updateArgs_def)
  from update_body_fields [of e c args] parses
  obtain req where req: "updateIssue_request e c args = Some (Inr req)"
    by blast
  from update_body_fields [of e c args req] req empty
  have body: "Request.Body req = Some (JObject [(''fields'', JObject [])])"
    and sent: "updateIssue e c args = Some
             (case Do e (httpClient c) req of
                Inl err \<Rightarrow> Inl (SendRequestFailed err)
              | Inr resp \<Rightarrow> updateIssue_response args resp)"
    by blast+
  have "updateIssue e c args = Some (Inr ''PROJ-123'')"
    unfolding sent
    by (simp add: e_def stubUpstream_def updateIssue_response_def StatusNoContent_def
        StatusOK_def args_def updateArgs_def)
  with req body show "\<exists>req. updateIssue_request (stubUpstream 204 (Inl []))
            (NewJiraClient id serverConfig)
            (updateArgs serverConfig [] []) = Some (Inr req)
      \<and> Request.Body req = Some (JObject [(''fields'', JObject [])])
      \<and> updateIssue (stubUpstream 204 (Inl [])) (NewJiraClient id serverConfig)
            (updateArgs serverConfig [] []) = Some (Inr ''PROJ-123'')"
    unfolding e_def c_def args_def by blast
qed

subsection \<open>The result of an update\<close>

text \<open>
  C5. When the request of \<^verbatim>\<open>updateIssue\<close> is built and the upstream answers it,
  \<^verbatim>\<open>updateIssue\<close> succeeds if and only if the status of the response is 200 or 204; it
  then returns the issue key of its arguments, and otherwise an error with the status
  code. The body of the response has no part in the result.
\<close>

theorem update_result:
  "updateIssue_request e c args = Some (Inr req) \<and> Do e (httpClient c) req = Inr resp \<longrightarrow>
     ((\<exists>key. updateIssue e c args = Some (Inr key))
        = (StatusCode resp = 200 \<or> StatusCode resp = 204))
     \<and> (StatusCode resp = 200 \<or> StatusCode resp = 204 \<longrightarrow>
          updateIssue e c args = Some (Inr (IssueKey args)))
     \<and> (StatusCode resp \<noteq> 200 \<and> StatusCode resp \<noteq> 204 \<longrightarrow>
          updateIssue e c args = Some (Inl (UpdateIssueStatus (StatusCode resp))))
     \<and> updateIssue_response args (resp\<lparr>Response.Body := b\<rparr>) = updateIssue_response args resp"
proof (intro impI)
  assume "updateIssue_request e c args = Some (Inr req) \<and> Do e (httpClient c) req = Inr resp"
  then have run: "updateIssue e c args = Some (updateIssue_response args resp)"
    by (simp add: updateIssue_def)
  have ok: "StatusCode resp = 200 \<or> StatusCode resp = 204 \<Longrightarrow>
      updateIssue_response args resp = Inr (IssueKey args)"
    by (auto simp: updateIssue_response_def StatusOK_def StatusNoContent_def)
  have bad: "StatusCode resp \<noteq> 200 \<and> StatusCode resp \<noteq> 204 \<Longrightarrow>
      updateIssue_response args resp = Inl (UpdateIssueStatus (StatusCode resp))"
    by (simp add: updateIssue_response_def StatusOK_def StatusNoContent_def)
  have iff: "(\<exists>key. updateIssue e c args = Some (Inr key))
        = (StatusCode resp = 200 \<or> StatusCode resp = 204)"
  proof (cases "StatusCode resp = 200 \<or> StatusCode resp = 204")
    case True
    then show ?thesis using run ok by simp
  next
    case False
    then show ?thesis using run bad by simp
  qed
  have body: "updateIssue_response args (resp\<lparr>Response.Body := b\<rparr>)
      = updateIssue_response args resp"
    by (simp add: updateIssue_response_def)
  show "((\<exists>key. updateIssue e c args = Some (Inr key))
        = (StatusCode resp = 200 \<or> StatusCode resp = 204))
     \<and> (StatusCode resp = 200 \<or> StatusCode resp = 204 \<longrightarrow>
          updateIssue e c args = Some (Inr (IssueKey args)))
     \<and> (StatusCode resp \<noteq> 200 \<and> StatusCode resp \<noteq> 204 \<longrightarrow>
          updateIssue e c args = Some (Inl (UpdateIssueStatus (StatusCode resp))))
     \<and> updateIssue_response args (resp\<lparr>Response.Body := b\<rparr>) = updateIssue_response args resp"
    using iff run ok bad body by simp
qed

lemma stub_update_built:
  "\<exists>req. updateIssue_request (stubUpstream code body) c args = Some (Inr req)"
  unfolding updateIssue_request_explicit by (simp add: stubUpstream_def)

lemma stub_Do: "Do (stubUpstream code body) cl req = Inr \<lparr>StatusCode = code, Response.Body = body\<rparr>"
  by (simp add: stubUpstream_def)

theorem update_result_witness:
  "updateIssue (stubUpstream 204 (Inl [])) (NewJiraClient id serverConfig)
      (updateArgs serverConfig ''New title'' []) = Some (Inr ''PROJ-123'')
   \<and> updateIssue (stubUpstream 200 (Inr JNull)) (NewJiraClient id serverConfig)
      (updateArgs serverConfig ''New title'' []) = Some (Inr ''PROJ-123'')
   \<and> updateIssue (stubUpstream 404 (Inr JNull)) (NewJiraClient id serverConfig)
      (updateArgs serverConfig ''New title'' []) = Some (Inl (UpdateIssueStatus 404))"
proof -
  define c where "c = NewJiraClient id serverConfig"
  define args where "args = updateArgs serverConfig ''New title'' []"
  have key: "IssueKey args = ''PROJ-123''"
    by (simp add: args_def updateArgs_def)
  have run: "updateIssue (stubUpstream code body) c args
      = (if code = 200 \<or> code = 204 then Some (Inr ''PROJ-123'')
         else Some (Inl (UpdateIssueStatus code)))" for code body
  proof -
    obtain req where req: "updateIssue_request (stubUpstream code body) c args = Some (Inr req)"
      using stub_update_built by blast
    let ?resp = "\<lparr>StatusCode = code, Response.Body = body\<rparr>"
    have "updateIssue_request (stubUpstream code body) c args = Some (Inr req)
        \<and> Do (stubUpstream code body) (httpClient c) req = Inr ?resp"
      using req stub_Do by simp
    with update_result [of "stubUpstream code body" c args req ?resp undefined]
    have "(StatusCode ?resp = 200 \<or> StatusCode ?resp = 204 \<longrightarrow>
          updateIssue (stubUpstream code body) c args = Some (Inr (IssueKey args)))
     \<and> (StatusCode ?resp \<noteq> 200 \<and> StatusCode ?resp \<noteq> 204 \<longrightarrow>
          updateIssue (stubUpstream code body) c args
            = Some (Inl (UpdateIssueStatus (StatusCode ?resp))))"
      by blast
    then show ?thesis
      unfolding key by simp
  qed
  have "updateIssue (stubUpstream 204 (Inl [])) c args = Some (Inr ''PROJ-123'')"
    and "updateIssue (stubUpstream 200 (Inr JNull)) c args = Some (Inr ''PROJ-123'')"
    and "updateIssue (stubUpstream 404 (Inr JNull)) c args = Some (Inl (UpdateIssueStatus 404))"
    unfolding run by simp_all
  then show ?thesis
    unfolding c_def args_def by (intro conjI)
qed

subsection \<open>The result of a create\<close>

lemma Decode_map_object:
  "numbersFit (JObject kvs) \<Longrightarrow> Decode_map (Inr (JObject kvs)) = Inr (map_of (rev kvs))"
  by (simp add: Decode_map_def)

lemma createIssue_response_status:
  "StatusCode resp \<noteq> 201 \<Longrightarrow>
     createIssue_response resp = Inl (CreateIssueStatus (StatusCode resp))"
  by (simp add: createIssue_response_def StatusCreated_def)

lemma createIssue_response_created:
  "StatusCode resp = 201 \<Longrightarrow>
     createIssue_response resp =
       (case Decode_map (Response.Body resp) of
          Inl err \<Rightarrow> Inl (DecodeResponseFailed err)
        | Inr result \<Rightarrow>
            (case result ''key'' of
               Some (JString issueKey) \<Rightarrow> Inr issueKey
             | _ \<Rightarrow> Inl IssueKeyNotFound))"
  by (simp add: createIssue_response_def StatusCreated_def)

lemma key_lookup_string:
  "m ''key'' = Some (JString key) \<Longrightarrow>
     (case m ''key'' of Some (JString issueKey) \<Rightarrow> Inr issueKey | _ \<Rightarrow> Inl IssueKeyNotFound)
       = Inr key"
  by simp

lemma key_lookup_other:
  "\<forall>key. m ''key'' \<noteq> Some (JString key) \<Longrightarrow>
     (case m ''key'' of Some (JString issueKey) \<Rightarrow> Inr issueKey | _ \<Rightarrow> Inl IssueKeyNotFound)
       = (Inl IssueKeyNotFound :: error + string)"
  by (auto split: option.splits json.splits)

text \<open>
  C3. When the request of \<^verbatim>\<open>createIssue\<close> is built and the upstream answers it:
  \<^verbatim>\<open>createIssue\<close> succeeds only if the status is 201; any other status gives the error
  with that status code, whatever the body. With status 201 the body is decoded: a body
  that does not decode gives the decoding error; of a body that is an object (whose
  numbers are in the range of \<^verbatim>\<open>float64\<close>), the member \<^verbatim>\<open>key\<close> is returned when it is a
  string, and the error \<^verbatim>\<open>issue key not found in response\<close> when the object has no member
  \<^verbatim>\<open>key\<close> or its value is not a string. Of a repeated member the last one counts.
\<close>

theorem create_result:
  "createIssue_request e c args = Inr req \<and> Do e (httpClient c) req = Inr resp \<longrightarrow>
     ((\<exists>key. createIssue e c args = Inr key) \<longrightarrow> StatusCode resp = 201)
     \<and> (StatusCode resp \<noteq> 201 \<longrightarrow>
          createIssue e c args = Inl (CreateIssueStatus (StatusCode resp))
          \<and> createIssue_response (resp\<lparr>Response.Body := b\<rparr>) = createIssue_response resp)
     \<and> (StatusCode resp = 201 \<and> Decode_map (Response.Body resp) = Inl err \<longrightarrow>
          createIssue e c args = Inl (DecodeResponseFailed err))
     \<and> (StatusCode resp = 201 \<and> Response.Body resp = Inr (JObject kvs)
          \<and> numbersFit (JObject kvs) \<longrightarrow>
          (map_of (rev kvs) ''key'' = Some (JString key) \<longrightarrow> createIssue e c args = Inr key)
          \<and> (''key'' \<notin> fst ` set kvs \<longrightarrow> createIssue e c args = Inl IssueKeyNotFound)
          \<and> ((\<forall>k. map_of (rev kvs) ''key'' \<noteq> Some (JString k)) \<longrightarrow>
                createIssue e c args = Inl IssueKeyNotFound))"
proof (intro impI)
  assume "createIssue_request e c args = Inr req \<and> Do e (httpClient c) req = Inr resp"
  then have run: "createIssue e c args = createIssue_response resp"
    by (simp add: createIssue_def)
  have only: "(\<exists>key. createIssue e c args = Inr key) \<longrightarrow> StatusCode resp = 201"
  proof (cases "StatusCode resp = 201")
    case True
    then show ?thesis by simp
  next
    case False
    then show ?thesis
      unfolding run by (simp add: createIssue_response_status)
  qed
  have other: "StatusCode resp \<noteq> 201 \<longrightarrow>
          createIssue e c args = Inl (CreateIssueStatus (StatusCode resp))
          \<and> createIssue_response (resp\<lparr>Response.Body := b\<rparr>) = createIssue_response resp"
    unfolding run by (simp add: createIssue_response_def StatusCreated_def)
  have undecoded: "StatusCode resp = 201 \<and> Decode_map (Response.Body resp) = Inl err \<longrightarrow>
          createIssue e c args = Inl (DecodeResponseFailed err)"
    unfolding run by (simp add: createIssue_response_created)
  have decoded: "StatusCode resp = 201 \<and> Response.Body resp = Inr (JObject kvs)
          \<and> numbersFit (JObject kvs) \<longrightarrow>
          (map_of (rev kvs) ''key'' = Some (JString key) \<longrightarrow> createIssue e c args = Inr key)
          \<and> (''key'' \<notin> fst ` set kvs \<longrightarrow> createIssue e c args = Inl IssueKeyNotFound)
          \<and> ((\<forall>k. map_of (rev kvs) ''key'' \<noteq> Some (JString k)) \<longrightarrow>
                createIssue e c args = Inl IssueKeyNotFound)"
  proof (intro impI)
    assume a: "StatusCode resp = 201 \<and> Response.Body resp = Inr (JObject kvs)
          \<and> numbersFit (JObject kvs)"
    then have result: "createIssue e c args =
        (case map_of (rev kvs) ''key'' of
           Some (JString issueKey) \<Rightarrow> Inr issueKey
         | _ \<Rightarrow> Inl IssueKeyNotFound)"
      unfolding run by (simp add: createIssue_response_created Decode_map_object)
    have absent: "''key'' \<notin> fst ` set kvs \<Longrightarrow> map_of (rev kvs) ''key'' = None"
      by (simp add: map_of_eq_None_iff)
    show "(map_of (rev kvs) ''key'' = Some (JString key) \<longrightarrow> createIssue e c args = Inr key)
          \<and> (''key'' \<notin> fst ` set kvs \<longrightarrow> createIssue e c args = Inl IssueKeyNotFound)
          \<and> ((\<forall>k. map_of (rev kvs) ''key'' \<noteq> Some (JString k)) \<longrightarrow>
                createIssue e c args = Inl IssueKeyNotFound)"
      unfolding result using absent key_lookup_other [of "map_of (rev kvs)"]
      by auto
  qed
  from only other undecoded decoded
  show "((\<exists>key. createIssue e c args = Inr key) \<longrightarrow> StatusCode resp = 201)
     \<and> (StatusCode resp \<noteq> 201 \<longrightarrow>
          createIssue e c args = Inl (CreateIssueStatus (StatusCode resp))
          \<and> createIssue_response (resp\<lparr>Response.Body := b\<rparr>) = createIssue_response resp)
     \<and> (StatusCode resp = 201 \<and> Decode_map (Response.Body resp) = Inl err \<longrightarrow>
          createIssue e c args = Inl (DecodeResponseFailed err))
     \<and> (StatusCode resp = 201 \<and> Response.Body resp = Inr (JObject kvs)
          \<and> numbersFit (JObject kvs) \<longrightarrow>
          (map_of (rev kvs) ''key'' = Some (JString key) \<longrightarrow> createIssue e c args = Inr key)
          \<and> (''key'' \<notin> fst ` set kvs \<longrightarrow> createIssue e c args = Inl IssueKeyNotFound)
          \<and> ((\<forall>k. map_of (rev kvs) ''key'' \<noteq> Some (JString k)) \<longrightarrow>
                createIssue e c args = Inl IssueKeyNotFound))"
    by (intro conjI)
qed

lemma stub_create_built:
  "\<exists>req. createIssue_request (stubUpstream code body) c args = Inr req"
  unfolding createIssue_request_explicit by (simp add: stubUpstream_def)

theorem create_result_witness:
  "createIssue (stubUpstream 201 (Inr (JObject [(''key'', JString ''PROJ-123'')])))
      (NewJiraClient id cloudConfig) (createArgs cloudConfig) = Inr ''PROJ-123''
   \<and> createIssue (stubUpstream 400 (Inr (JObject [(''key'', JString ''PROJ-123'')])))
      (NewJiraClient id cloudConfig) (createArgs cloudConfig) = Inl (CreateIssueStatus 400)
   \<and> createIssue (stubUpstream 201 (Inr (JObject [(''id'', JString ''10000'')])))
      (NewJiraClient id cloudConfig) (createArgs cloudConfig) = Inl IssueKeyNotFound
   \<and> createIssue (stubUpstream 201 (Inl ''EOF''))
      (NewJiraClient id cloudConfig) (createArgs cloudConfig)
        = Inl (DecodeResponseFailed (BodyError ''EOF''))"
proof -
  define c where "c = NewJiraClient id cloudConfig"
  define args where "args = createArgs cloudConfig"
  have answered: "\<exists>req. createIssue_request (stubUpstream code body) c args = Inr req
        \<and> Do (stubUpstream code body) (httpClient c) req
              = Inr \<lparr>StatusCode = code, Response.Body = body\<rparr>"
    for code body
    using stub_create_built [of code body c args] stub_Do [of code body] by blast
  have created: "createIssue (stubUpstream 201 (Inr (JObject [(''key'', JString ''PROJ-123'')])))
      c args = Inr ''PROJ-123''"
  proof -
    let ?body = "Inr (JObject [(''key'', JString ''PROJ-123'')]) :: string + json"
    let ?resp = "\<lparr>StatusCode = 201, Response.Body = ?body\<rparr>"
    from answered [of 201 ?body] obtain req where
      h: "createIssue_request (stubUpstream 201 ?body) c args = Inr req
        \<and> Do (stubUpstream 201 ?body) (httpClient c) req = Inr ?resp"
      by blast
    note r = create_result [of "stubUpstream 201 ?body" c args req ?resp undefined undefined
        "[(''key'', JString ''PROJ-123'')]" "''PROJ-123''", THEN mp, OF h]
    note object = r [THEN conjunct2, THEN conjunct2, THEN conjunct2]
    have "StatusCode ?resp = 201 \<and> Response.Body ?resp = Inr (JObject [(''key'', JString ''PROJ-123'')])
        \<and> numbersFit (JObject [(''key'', JString ''PROJ-123'')])"
      by simp
    note found = object [THEN mp, OF this, THEN conjunct1]
    have "map_of (rev [(''key'', JString ''PROJ-123'')]) ''key'' = Some (JString ''PROJ-123'')"
      by simp
    from found [THEN mp, OF this] show ?thesis .
  qed
  have refused: "createIssue (stubUpstream 400 (Inr (JObject [(''key'', JString ''PROJ-123'')])))
      c args = Inl (CreateIssueStatus 400)"
  proof -
    let ?body = "Inr (JObject [(''key'', JString ''PROJ-123'')]) :: string + json"
    let ?resp = "\<lparr>StatusCode = 400, Response.Body = ?body\<rparr>"
    from answered [of 400 ?body] obtain req where
      h: "createIssue_request (stubUpstream 400 ?body) c args = Inr req
        \<and> Do (stubUpstream 400 ?body) (httpClient c) req = Inr ?resp"
      by blast
    note r = create_result [of "stubUpstream 400 ?body" c args req ?resp undefined undefined
        undefined undefined, THEN mp, OF h]
    note other = r [THEN conjunct2, THEN conjunct1]
    have "StatusCode ?resp \<noteq> 201" by simp
    from other [THEN mp, OF this, THEN conjunct1] show ?thesis by simp
  qed
  have nokey: "createIssue (stubUpstream 201 (Inr (JObject [(''id'', JString ''10000'')])))
      c args = Inl IssueKeyNotFound"
  proof -
    let ?body = "Inr (JObject [(''id'', JString ''10000'')]) :: string + json"
    let ?resp = "\<lparr>StatusCode = 201, Response.Body = ?body\<rparr>"
    from answered [of 201 ?body] obtain req where
      h: "createIssue_request (stubUpstream 201 ?body) c args = Inr req
        \<and> Do (stubUpstream 201 ?body) (httpClient c) req = Inr ?resp"
      by blast
    note r = create_result [of "stubUpstream 201 ?body" c args req ?resp undefined undefined
        "[(''id'', JString ''10000'')]" undefined, THEN mp, OF h]
    note object = r [THEN conjunct2, THEN conjunct2, THEN conjunct2]
    have "StatusCode ?resp = 201 \<and> Response.Body ?resp = Inr (JObject [(''id'', JString ''10000'')])
        \<and> numbersFit (JObject [(''id'', JString ''10000'')])"
      by simp
    note absent = object [THEN mp, OF this, THEN conjunct2, THEN conjunct1]
    have "''key'' \<notin> fst ` set [(''id'', JString ''10000'')]"
      by simp
    from absent [THEN mp, OF this] show ?thesis .
  qed
  have eof: "createIssue (stubUpstream 201 (Inl ''EOF'')) c args
      = Inl (DecodeResponseFailed (BodyError ''EOF''))"
  proof -
    let ?body = "Inl ''EOF'' :: string + json"
    let ?resp = "\<lparr>StatusCode = 201, Response.Body = ?body\<rparr>"
    from answered [of 201 ?body] obtain req where
      h: "createIssue_request (stubUpstream 201 ?body) c args = Inr req
        \<and> Do (stubUpstream 201 ?body) (httpClient c) req = Inr ?resp"
      by blast
    note r = create_result [of "stubUpstream 201 ?body" c args req ?resp undefined
        "BodyError ''EOF''" undefined undefined, THEN mp, OF h]
    note undecoded = r [THEN conjunct2, THEN conjunct2, THEN conjunct1]
    have "StatusCode ?resp = 201 \<and> Decode_map (Response.Body ?resp) = Inl (BodyError ''EOF'')"
      by (simp add: Decode_map_def)
    from undecoded [THEN mp, OF this] show ?thesis .
  qed
  from created refused nokey eof show ?thesis
    unfolding c_def args_def by (intro conjI)
qed

subsection \<open>The information resource\<close>

lemma mustMarshal_total: "mustMarshal v = Some (sortKeys v)"
  by (simp add: mustMarshal_def Marshal_def)

text \<open>
  C8. The handler of the resource \<^verbatim>\<open>info://server\<close> takes no input and returns, each time,
  the same response and no error (it does not panic either): one text resource of type
  \<^verbatim>\<open>application/json\<close> whose document has the name and the version of the server and
  the array of the three actions \<^verbatim>\<open>create_issue\<close>, \<^verbatim>\<open>update_issue\<close>, \<^verbatim>\<open>search_issues\<close>, in
  this order.
\<close>

theorem info_server_constant:
  "info_server u = Some (Inr (NewResourceResponse
     [NewTextEmbeddedResource ''info://server''
        (JSONText (JObject
           [(''actions'', JArray
               [JString ''create_issue'', JString ''update_issue'', JString ''search_issues'']),
            (''name'', JString ''Jira MCP Server''),
            (''version'', JString ''1.0.0'')]))
        ''application/json'']))"
  by (simp add: info_server_def mustMarshal_total ServerName_def ServerVersion_def)

subsection \<open>The variant depends on the URL only\<close>

lemma isCloud_URL:
  "JiraConfig.URL cfg1 = JiraConfig.URL cfg2 \<Longrightarrow>
     isCloud (NewJiraClient lower cfg1) = isCloud (NewJiraClient lower cfg2)"
  by (simp add: NewJiraClient_def)

lemma authScheme_authorization:
  "Header r ''Authorization'' = Some [authorization v cfg] \<Longrightarrow>
     authScheme r = Some (case v of Cloud \<Rightarrow> ''Basic'' | DataCenter \<Rightarrow> ''Bearer'')"
  by (cases v) (simp_all add: authScheme_def)

lemma createIssue_request_scheme:
  "createIssue_request e c a = Inr r \<Longrightarrow>
     authScheme r = Some (case variant c of Cloud \<Rightarrow> ''Basic'' | DataCenter \<Rightarrow> ''Bearer'')"
  unfolding createIssue_request_explicit
  by (auto split: option.splits intro!: authScheme_authorization)

lemma updateIssue_request_scheme:
  "updateIssue_request e c u = Some (Inr r) \<Longrightarrow>
     authScheme r = Some (case variant c of Cloud \<Rightarrow> ''Basic'' | DataCenter \<Rightarrow> ''Bearer'')"
  unfolding updateIssue_request_explicit
  by (auto split: option.splits intro!: authScheme_authorization)

lemma searchIssues_request_scheme:
  "searchIssues_request e c s = Inr r \<Longrightarrow>
     authScheme r = Some (case variant c of Cloud \<Rightarrow> ''Basic'' | DataCenter \<Rightarrow> ''Bearer'')"
  unfolding searchIssues_request_explicit
  by (auto split: option.splits intro!: authScheme_authorization)

text \<open>
  C10. Two configurations with the same URL resolve to the same variant, whatever their
  credentials and e-mail addresses: \<^verbatim>\<open>NewJiraClient\<close> gives both clients the same
  \<open>isCloud\<close>, hence the same API path prefix, and the requests built for the two
  clients, for whatever arguments, authenticate with the same scheme.
\<close>

theorem variant_depends_on_url_only:
  "JiraConfig.URL cfg1 = JiraConfig.URL cfg2 \<longrightarrow>
     isCloud (NewJiraClient lower cfg1) = isCloud (NewJiraClient lower cfg2)
     \<and> variant (NewJiraClient lower cfg1) = variant (NewJiraClient lower cfg2)
     \<and> getBaseAPIPath (NewJiraClient lower cfg1) = getBaseAPIPath (NewJiraClient lower cfg2)
     \<and> (createIssue_request e (NewJiraClient lower cfg1) a1 = Inr r1
          \<and> createIssue_request e (NewJiraClient lower cfg2) a2 = Inr r2
          \<longrightarrow> authScheme r1 = authScheme r2)
     \<and> (updateIssue_request e (NewJiraClient lower cfg1) u1 = Some (Inr r1)
          \<and> updateIssue_request e (NewJiraClient lower cfg2) u2 = Some (Inr r2)
          \<longrightarrow> authScheme r1 = authScheme r2)
     \<and> (searchIssues_request e (NewJiraClient lower cfg1) s1 = Inr r1
          \<and> searchIssues_request e (NewJiraClient lower cfg2) s2 = Inr r2
          \<longrightarrow> authScheme r1 = authScheme r2)"
proof (intro impI)
  assume "JiraConfig.URL cfg1 = JiraConfig.URL cfg2"
  then have flag: "isCloud (NewJiraClient lower cfg1) = isCloud (NewJiraClient lower cfg2)"
    by (rule isCloud_URL)
  then have var: "variant (NewJiraClient lower cfg1) = variant (NewJiraClient lower cfg2)"
    by (simp add: variant_def)
  have path: "getBaseAPIPath (NewJiraClient lower cfg1)
      = getBaseAPIPath (NewJiraClient lower cfg2)"
    using flag by (simp add: getBaseAPIPath_def)
  have create: "createIssue_request e (NewJiraClient lower cfg1) a1 = Inr r1
          \<and> createIssue_request e (NewJiraClient lower cfg2) a2 = Inr r2
          \<longrightarrow> authScheme r1 = authScheme r2"
    using createIssue_request_scheme [of e _ _ r1] createIssue_request_scheme [of e _ _ r2] var
    by auto
  have update: "updateIssue_request e (NewJiraClient lower cfg1) u1 = Some (Inr r1)
          \<and> updateIssue_request e (NewJiraClient lower cfg2) u2 = Some (Inr r2)
          \<longrightarrow> authScheme r1 = authScheme r2"
    using updateIssue_request_scheme [of e _ _ r1] updateIssue_request_scheme [of e _ _ r2] var
    by auto
  have search: "searchIssues_request e (NewJiraClient lower cfg1) s1 = Inr r1
          \<and> searchIssues_request e (NewJiraClient lower cfg2) s2 = Inr r2
          \<longrightarrow> authScheme r1 = authScheme r2"
    using searchIssues_request_scheme [of e _ _ r1] searchIssues_request_scheme [of e _ _ r2] var
    by auto
  from flag var path create update search
  show "isCloud (NewJiraClient lower cfg1) = isCloud (NewJiraClient lower cfg2)
     \<and> variant (NewJiraClient lower cfg1) = variant (NewJiraClient lower cfg2)
     \<and> getBaseAPIPath (NewJiraClient lower cfg1) = getBaseAPIPath (NewJiraClient lower cfg2)
     \<and> (createIssue_request e (NewJiraClient lower cfg1) a1 = Inr r1
          \<and> createIssue_request e (NewJiraClient lower cfg2) a2 = Inr r2
          \<longrightarrow> authScheme r1 = authScheme r2)
     \<and> (updateIssue_request e (NewJiraClient lower cfg1) u1 = Some (Inr r1)
          \<and> updateIssue_request e (NewJiraClient lower cfg2) u2 = Some (Inr r2)
          \<longrightarrow> authScheme r1 = authScheme r2)
     \<and> (searchIssues_request e (NewJiraClient lower cfg1) s1 = Inr r1
          \<and> searchIssues_request e (NewJiraClient lower cfg2) s2 = Inr r2
          \<longrightarrow> authScheme r1 = authScheme r2)"
    by (intro conjI)
qed

theorem variant_depends_on_url_only_witness:
  "JiraConfig.URL cloudConfig
     = JiraConfig.URL (cloudConfig\<lparr>APIKey := ''other'', Email := ''x@y.z''\<rparr>)
   \<and> isCloud (NewJiraClient id cloudConfig)
   \<and> isCloud (NewJiraClient id (cloudConfig\<lparr>APIKey := ''other'', Email := ''x@y.z''\<rparr>))
   \<and> getBaseAPIPath (NewJiraClient id (cloudConfig\<lparr>APIKey := ''other'', Email := ''x@y.z''\<rparr>))
       = ''/rest/api/3''
   \<and> (\<exists>r1 r2. createIssue_request (stubUpstream 201 (Inl [])) (NewJiraClient id cloudConfig)
          (createArgs cloudConfig) = Inr r1
        \<and> createIssue_request (stubUpstream 201 (Inl []))
          (NewJiraClient id (cloudConfig\<lparr>APIKey := ''other'', Email := ''x@y.z''\<rparr>))
          (createArgs (cloudConfig\<lparr>APIKey := ''other'', Email := ''x@y.z''\<rparr>)) = Inr r2
        \<and> authScheme r1 = Some ''Basic'' \<and> authScheme r2 = Some ''Basic'')"
proof -
  define cfg2 where "cfg2 = cloudConfig\<lparr>APIKey := ''other'', Email := ''x@y.z''\<rparr>"
  define e where "e = stubUpstream 201 (Inl [])"
  have url: "JiraConfig.URL cloudConfig = JiraConfig.URL cfg2"
    by (simp add: cfg2_def)
  have cloud1: "isCloud (NewJiraClient id cloudConfig)"
    using variant_cloudConfig by (simp add: variant_def split: if_splits)
  note same = variant_depends_on_url_only [of cloudConfig cfg2 id e, THEN mp, OF url]
  from same [THEN conjunct1] cloud1
  have cloud2: "isCloud (NewJiraClient id cfg2)"
    by simp
  have "getBaseAPIPath (NewJiraClient id cloudConfig) = ''/rest/api/3''"
    using cloud1 by (simp add: getBaseAPIPath_def)
  with same [THEN conjunct2, THEN conjunct2, THEN conjunct1]
  have path2: "getBaseAPIPath (NewJiraClient id cfg2) = ''/rest/api/3''"
    by simp
  obtain r1 where r1: "createIssue_request e (NewJiraClient id cloudConfig)
      (createArgs cloudConfig) = Inr r1"
    unfolding e_def using stub_create_built by blast
  obtain r2 where r2: "createIssue_request e (NewJiraClient id cfg2) (createArgs cfg2) = Inr r2"
    unfolding e_def using stub_create_built by blast
  have s1: "authScheme r1 = Some ''Basic''"
    using createIssue_request_scheme [OF r1] variant_cloudConfig by simp
  note schemes = same [of "createArgs cloudConfig" r1 "createArgs cfg2" r2,
      THEN conjunct2, THEN conjunct2, THEN conjunct2, THEN conjunct1]
  from schemes r1 r2 have "authScheme r1 = authScheme r2"
    by blast
  with s1 have s2: "authScheme r2 = Some ''Basic''"
    by simp
  from url cloud1 cloud2 path2 r1 r2 s1 s2 show ?thesis
    unfolding cfg2_def e_def by blast
qed

subsection \<open>Decoding the search result\<close>

lemma members_Nil [simp]: "members name [] = []"
  by (simp add: members_def)

lemma members_Cons:
  "members name ((k, v) # kvs) = (if isField name k then v # members name kvs else members name kvs)"
  by (simp add: members_def)

lemma foldName_key: "foldName ''key'' = ''KEY''"
  by (simp add: toUpperASCII_def char_of_def bit_iff_odd_drop_bit)

lemma foldName_fields: "foldName ''fields'' = ''FIELDS''"
  by (simp add: toUpperASCII_def char_of_def bit_iff_odd_drop_bit)

lemma key_not_fields: "isField ''key'' k \<Longrightarrow> \<not> isField ''fields'' k"
  by (simp add: isField_def foldName_key foldName_fields)

lemma storeFieldsMembers_members:
  "storeFieldsMembers kvs f =
     (case storeAll storeString (members ''summary'' kvs) (IssueFields.Summary f) of
        (s, e) \<Rightarrow> (f\<lparr>IssueFields.Summary := s\<rparr>, e))"
proof (induction kvs arbitrary: f)
  case Nil
  then show ?case by simp
next
  case (Cons kv kvs)
  obtain k v where kv: "kv = (k, v)" by (cases kv)
  show ?case
    unfolding kv by (simp add: members_Cons Cons.IH split: prod.splits)
qed

lemma storeIssueMembers_members:
  "storeIssueMembers es i =
     (case storeAll storeString (members ''key'' es) (Key i) of
        (k, e1) \<Rightarrow>
          (case storeAll storeFields (members ''fields'' es) (Fields i) of
             (f, e2) \<Rightarrow> (i\<lparr>Key := k, Fields := f\<rparr>, e1 \<or> e2)))"
proof (induction es arbitrary: i)
  case Nil
  then show ?case by simp
next
  case (Cons kv es)
  obtain k v where kv: "kv = (k, v)" by (cases kv)
  show ?case
  proof (cases "isField ''key'' k")
    case True
    with key_not_fields have "\<not> isField ''fields'' k" by blast
    with True show ?thesis
      unfolding kv by (simp add: members_Cons Cons.IH split: prod.splits)
  next
    case False
    then show ?thesis
      unfolding kv by (auto simp add: members_Cons Cons.IH split: prod.splits)
  qed
qed

lemma storeResultMembers_members:
  "storeResultMembers kvs r =
     (case storeAll storeIssueSlice (members ''issues'' kvs) (Issues r) of
        (sl, e) \<Rightarrow> (r\<lparr>Issues := sl\<rparr>, e))"
proof (induction kvs arbitrary: r)
  case Nil
  then show ?case by simp
next
  case (Cons kv kvs)
  obtain k v where kv: "kv = (k, v)" by (cases kv)
  show ?case
    unfolding kv by (simp add: members_Cons Cons.IH split: prod.splits)
qed

lemma stringOf_store:
  "stringOf vs = Some s \<Longrightarrow> storeAll storeString vs [] = (s, False)"
  by (auto simp: stringOf_def storeString_def split: list.splits json.splits)

lemma issueView_store:
  assumes "issueView x = Some (k, s)"
  shows "storeIssue x zeroIssue = (\<lparr>Key = k, Fields = \<lparr>Summary = s\<rparr>\<rparr>, False)"
proof (cases x)
  case (JObject es)
  from assms obtain key: "stringOf (members ''key'' es) = Some k"
    and fields: "members ''fields'' es = [] \<and> s = []
        \<or> (\<exists>fs. members ''fields'' es = [JObject fs]
              \<and> stringOf (members ''summary'' fs) = Some s)"
    unfolding JObject
    by (auto split: option.splits list.splits json.splits)
  have k: "storeAll storeString (members ''key'' es) [] = (k, False)"
    using key by (rule stringOf_store)
  have f: "storeAll storeFields (members ''fields'' es) \<lparr>Summary = []\<rparr>
      = (\<lparr>Summary = s\<rparr>, False)"
    using fields
  proof
    assume "members ''fields'' es = [] \<and> s = []"
    then show ?thesis by simp
  next
    assume "\<exists>fs. members ''fields'' es = [JObject fs]
              \<and> stringOf (members ''summary'' fs) = Some s"
    then obtain fs where fs: "members ''fields'' es = [JObject fs]"
      and s: "stringOf (members ''summary'' fs) = Some s"
      by blast
    have "storeFields (JObject fs) \<lparr>Summary = []\<rparr> = (\<lparr>Summary = s\<rparr>, False)"
      by (simp add: storeFields_def storeFieldsMembers_members stringOf_store [OF s])
    then show ?thesis
      unfolding fs by simp
  qed
  show ?thesis
    unfolding JObject storeIssue_def zeroIssue_def
    by (simp add: storeIssueMembers_members k f)
qed (use assms in simp_all)

lemma storeElems_views:
  "map issueView xs = map Some views \<Longrightarrow>
     storeElems xs [] = (map (\<lambda>(k, s). \<lparr>Key = k, Fields = \<lparr>Summary = s\<rparr>\<rparr>) views, False)"
proof (induction xs arbitrary: views)
  case Nil
  then show ?case by simp
next
  case (Cons x xs)
  from Cons.prems obtain v vs where views: "views = v # vs"
    and x: "issueView x = Some v" and xs: "map issueView xs = map Some vs"
    by (cases views) auto
  obtain k s where v: "v = (k, s)" by (cases v)
  show ?case
    unfolding views v
    by (simp add: issueView_store [OF x [unfolded v]] Cons.IH [OF xs])
qed

lemma appendIssues_map:
  "appendIssues acc is =
     acc @ map (\<lambda>i. [(''key'', Key i), (''summary'', IssueFields.Summary (Fields i))]) is"
  by (induction "is" arbitrary: acc) simp_all

lemma Decode_result_views:
  assumes "members ''issues'' kvs = [JArray xs]" and "map issueView xs = map Some views"
  shows "Decode_result (Inr (JObject kvs)) =
     Inr \<lparr>Issues = \<lparr>elems = map (\<lambda>(k, s). \<lparr>Key = k, Fields = \<lparr>Summary = s\<rparr>\<rparr>) views,
                       spare = []\<rparr>\<rparr>"
proof (cases "xs = []")
  case True
  with assms(2) have "views = []" by simp
  with True show ?thesis
    by (simp add: Decode_result_def storeResult_def storeResultMembers_members assms(1)
        storeIssueSlice_def nilSlice_def)
next
  case False
  then show ?thesis
    by (simp add: Decode_result_def storeResult_def storeResultMembers_members assms(1)
        storeIssueSlice_def nilSlice_def storeElems_views [OF assms(2)])
qed

lemma Decode_result_no_issues:
  assumes "members ''issues'' kvs = []"
  shows "Decode_result (Inr (JObject kvs)) = Inr \<lparr>Issues = \<lparr>elems = [], spare = []\<rparr>\<rparr>"
  by (simp add: Decode_result_def storeResult_def storeResultMembers_members assms nilSlice_def)

lemma searchIssues_response_status:
  "StatusCode resp \<noteq> 200 \<Longrightarrow>
     searchIssues_response resp = Inl (SearchIssuesStatus (StatusCode resp))"
  by (simp add: searchIssues_response_def StatusOK_def)

lemma searchIssues_response_ok:
  "StatusCode resp = 200 \<Longrightarrow>
     searchIssues_response resp =
       (case Decode_result (Response.Body resp) of
          Inl err \<Rightarrow> Inl (DecodeResponseFailed err)
        | Inr result \<Rightarrow> Inr (appendIssues [] (elems (Issues result))))"
  by (simp add: searchIssues_response_def StatusOK_def)

text \<open>
  C6. When the request of \<^verbatim>\<open>searchIssues\<close> is built and the upstream answers it:
  \<^verbatim>\<open>searchIssues\<close> succeeds only if the status is 200, and any other status gives the
  error with that status code. With status 200 the body is decoded, and a body that
  does not decode gives the decoding error. Of a body that is an object with one member
  \<^verbatim>\<open>issues\<close>, an array, the result is the list of the views of the elements of the array,
  in their order: the \<^verbatim>\<open>key\<close> and the \<^verbatim>\<open>fields.summary\<close> of each. Of an object with no member
  \<^verbatim>\<open>issues\<close> the result is the empty list, not an error. A member is found by its name
  as the decoder compares names, that is without regard to case.
\<close>

theorem search_result:
  "searchIssues_request e c args = Inr req \<and> Do e (httpClient c) req = Inr resp \<longrightarrow>
     ((\<exists>issues. searchIssues e c args = Inr issues) \<longrightarrow> StatusCode resp = 200)
     \<and> (StatusCode resp \<noteq> 200 \<longrightarrow>
          searchIssues e c args = Inl (SearchIssuesStatus (StatusCode resp)))
     \<and> (StatusCode resp = 200 \<and> Decode_result (Response.Body resp) = Inl err \<longrightarrow>
          searchIssues e c args = Inl (DecodeResponseFailed err))
     \<and> (StatusCode resp = 200 \<and> Response.Body resp = Inr (JObject kvs)
          \<and> members ''issues'' kvs = [JArray xs] \<and> map issueView xs = map Some views \<longrightarrow>
          searchIssues e c args
            = Inr (map (\<lambda>(k, s). [(''key'', k), (''summary'', s)]) views))
     \<and> (StatusCode resp = 200 \<and> Response.Body resp = Inr (JObject kvs)
          \<and> members ''issues'' kvs = [] \<longrightarrow>
          searchIssues e c args = Inr [])"
proof (intro impI)
  assume "searchIssues_request e c args = Inr req \<and> Do e (httpClient c) req = Inr resp"
  then have run: "searchIssues e c args = searchIssues_response resp"
    by (simp add: searchIssues_def)
  have only: "(\<exists>issues. searchIssues e c args = Inr issues) \<longrightarrow> StatusCode resp = 200"
  proof (cases "StatusCode resp = 200")
    case True
    then show ?thesis by simp
  next
    case False
    then show ?thesis
      unfolding run by (simp add: searchIssues_response_status)
  qed
  have other: "StatusCode resp \<noteq> 200 \<longrightarrow>
          searchIssues e c args = Inl (SearchIssuesStatus (StatusCode resp))"
    unfolding run by (simp add: searchIssues_response_status)
  have undecoded: "StatusCode resp = 200 \<and> Decode_result (Response.Body resp) = Inl err \<longrightarrow>
          searchIssues e c args = Inl (DecodeResponseFailed err)"
    unfolding run by (simp add: searchIssues_response_ok)
  have projected: "StatusCode resp = 200 \<and> Response.Body resp = Inr (JObject kvs)
          \<and> members ''issues'' kvs = [JArray xs] \<and> map issueView xs = map Some views \<longrightarrow>
          searchIssues e c args
            = Inr (map (\<lambda>(k, s). [(''key'', k), (''summary'', s)]) views)"
  proof
    assume a: "StatusCode resp = 200 \<and> Response.Body resp = Inr (JObject kvs)
          \<and> members ''issues'' kvs = [JArray xs] \<and> map issueView xs = map Some views"
    then have "Decode_result (Response.Body resp) =
        Inr \<lparr>Issues = \<lparr>elems = map (\<lambda>(k, s). \<lparr>Key = k, Fields = \<lparr>Summary = s\<rparr>\<rparr>) views,
                          spare = []\<rparr>\<rparr>"
      using Decode_result_views [of kvs xs views] by simp
    with a show "searchIssues e c args
            = Inr (map (\<lambda>(k, s). [(''key'', k), (''summary'', s)]) views)"
      unfolding run by (auto simp: searchIssues_response_ok appendIssues_map)
  qed
  have missing: "StatusCode resp = 200 \<and> Response.Body resp = Inr (JObject kvs)
          \<and> members ''issues'' kvs = [] \<longrightarrow>
          searchIssues e c args = Inr []"
  proof
    assume a: "StatusCode resp = 200 \<and> Response.Body resp = Inr (JObject kvs)
          \<and> members ''issues'' kvs = []"
    then have "Decode_result (Response.Body resp) = Inr \<lparr>Issues = \<lparr>elems = [], spare = []\<rparr>\<rparr>"
      using Decode_result_no_issues [of kvs] by simp
    with a show "searchIssues e c args = Inr []"
      unfolding run by (simp add: searchIssues_response_ok)
  qed
  from only other undecoded projected missing
  show "((\<exists>issues. searchIssues e c args = Inr issues) \<longrightarrow> StatusCode resp = 200)
     \<and> (StatusCode resp \<noteq> 200 \<longrightarrow>
          searchIssues e c args = Inl (SearchIssuesStatus (StatusCode resp)))
     \<and> (StatusCode resp = 200 \<and> Decode_result (Response.Body resp) = Inl err \<longrightarrow>
          searchIssues e c args = Inl (DecodeResponseFailed err))
     \<and> (StatusCode resp = 200 \<and> Response.Body resp = Inr (JObject kvs)
          \<and> members ''issues'' kvs = [JArray xs] \<and> map issueView xs = map Some views \<longrightarrow>
          searchIssues e c args
            = Inr (map (\<lambda>(k, s). [(''key'', k), (''summary'', s)]) views))
     \<and> (StatusCode resp = 200 \<and> Response.Body resp = Inr (JObject kvs)
          \<and> members ''issues'' kvs = [] \<longrightarrow>
          searchIssues e c args = Inr [])"
    by (intro conjI)
qed

lemma stub_search_built:
  "\<exists>req. searchIssues_request (stubUpstream code body) c args = Inr req"
  unfolding searchIssues_request_explicit by (simp add: stubUpstream_def)

lemma isField_literals:
  "isField ''issues'' ''issues''" "isField ''key'' ''key''" "isField ''fields'' ''fields''"
  "isField ''summary'' ''summary''"
  "\<not> isField ''key'' ''fields''" "\<not> isField ''fields'' ''key''"
  "\<not> isField ''issues'' ''total''"
  by (simp_all add: isField_def toUpperASCII_def char_of_def bit_iff_odd_drop_bit)

theorem search_result_witness:
  "searchIssues
      (stubUpstream 200 (Inr (JObject [(''issues'', JArray
         [JObject [(''key'', JString ''A-1''),
                   (''fields'', JObject [(''summary'', JString ''S1'')])]])])))
      (NewJiraClient id serverConfig) (searchArgs serverConfig)
     = Inr [[(''key'', ''A-1''), (''summary'', ''S1'')]]
   \<and> searchIssues (stubUpstream 200 (Inr (JObject [(''issues'', JArray [])])))
      (NewJiraClient id serverConfig) (searchArgs serverConfig) = Inr []
   \<and> searchIssues (stubUpstream 200 (Inr (JObject [(''total'', JNumber 0)])))
      (NewJiraClient id serverConfig) (searchArgs serverConfig) = Inr []
   \<and> searchIssues (stubUpstream 500 (Inl []))
      (NewJiraClient id serverConfig) (searchArgs serverConfig)
     = Inl (SearchIssuesStatus 500)"
proof -
  define c where "c = NewJiraClient id serverConfig"
  define args where "args = searchArgs serverConfig"
  have answered: "\<exists>req. searchIssues_request (stubUpstream code body) c args = Inr req
        \<and> Do (stubUpstream code body) (httpClient c) req
              = Inr \<lparr>StatusCode = code, Response.Body = body\<rparr>"
    for code body
    using stub_search_built [of code body c args] stub_Do [of code body] by blast
  have one: "searchIssues
      (stubUpstream 200 (Inr (JObject [(''issues'', JArray
         [JObject [(''key'', JString ''A-1''),
                   (''fields'', JObject [(''summary'', JString ''S1'')])]])])))
      c args = Inr [[(''key'', ''A-1''), (''summary'', ''S1'')]]"
  proof -
    let ?x = "JObject [(''key'', JString ''A-1''),
                       (''fields'', JObject [(''summary'', JString ''S1'')])]"
    let ?kvs = "[(''issues'', JArray [?x])]"
    let ?body = "Inr (JObject ?kvs) :: string + json"
    let ?resp = "\<lparr>StatusCode = 200, Response.Body = ?body\<rparr>"
    from answered [of 200 ?body] obtain req where
      h: "searchIssues_request (stubUpstream 200 ?body) c args = Inr req
        \<and> Do (stubUpstream 200 ?body) (httpClient c) req = Inr ?resp"
      by blast
    note r = search_result [of "stubUpstream 200 ?body" c args req ?resp undefined
        ?kvs "[?x]" "[(''A-1'', ''S1'')]", THEN mp, OF h]
    note projected = r [THEN conjunct2, THEN conjunct2, THEN conjunct2, THEN conjunct1]
    have view: "issueView ?x = Some (''A-1'', ''S1'')"
      by (simp add: members_Cons isField_literals stringOf_def)
    have "StatusCode ?resp = 200 \<and> Response.Body ?resp = Inr (JObject ?kvs)
          \<and> members ''issues'' ?kvs = [JArray [?x]]
          \<and> map issueView [?x] = map Some [(''A-1'', ''S1'')]"
      using view by (simp add: members_Cons isField_literals)
    from projected [THEN mp, OF this] show ?thesis by simp
  qed
  have none: "searchIssues (stubUpstream 200 (Inr (JObject [(''issues'', JArray [])]))) c args
      = Inr []"
  proof -
    let ?kvs = "[(''issues'', JArray [])]"
    let ?body = "Inr (JObject ?kvs) :: string + json"
    let ?resp = "\<lparr>StatusCode = 200, Response.Body = ?body\<rparr>"
    from answered [of 200 ?body] obtain req where
      h: "searchIssues_request (stubUpstream 200 ?body) c args = Inr req
        \<and> Do (stubUpstream 200 ?body) (httpClient c) req = Inr ?resp"
      by blast
    note r = search_result [of "stubUpstream 200 ?body" c args req ?resp undefined
        ?kvs "[]" "[]", THEN mp, OF h]
    note projected = r [THEN conjunct2, THEN conjunct2, THEN conjunct2, THEN conjunct1]
    have "StatusCode ?resp = 200 \<and> Response.Body ?resp = Inr (JObject ?kvs)
          \<and> members ''issues'' ?kvs = [JArray []]
          \<and> map issueView [] = map Some []"
      by (simp add: members_Cons isField_literals)
    from projected [THEN mp, OF this] show ?thesis by simp
  qed
  have missing: "searchIssues (stubUpstream 200 (Inr (JObject [(''total'', JNumber 0)]))) c args
      = Inr []"
  proof -
    let ?kvs = "[(''total'', JNumber 0)]"
    let ?body = "Inr (JObject ?kvs) :: string + json"
    let ?resp = "\<lparr>StatusCode = 200, Response.Body = ?body\<rparr>"
    from answered [of 200 ?body] obtain req where
      h: "searchIssues_request (stubUpstream 200 ?body) c args = Inr req
        \<and> Do (stubUpstream 200 ?body) (httpClient c) req = Inr ?resp"
      by blast
    note r = search_result [of "stubUpstream 200 ?body" c args req ?resp undefined
        ?kvs undefined undefined, THEN mp, OF h]
    note absent = r [THEN conjunct2, THEN conjunct2, THEN conjunct2, THEN conjunct2]
    have "StatusCode ?resp = 200 \<and> Response.Body ?resp = Inr (JObject ?kvs)
          \<and> members ''issues'' ?kvs = []"
      by (simp add: members_Cons isField_literals)
    from absent [THEN mp, OF this] show ?thesis .
  qed
  have refused: "searchIssues (stubUpstream 500 (Inl [])) c args = Inl (SearchIssuesStatus 500)"
  proof -
    let ?body = "Inl [] :: string + json"
    let ?resp = "\<lparr>StatusCode = 500, Response.Body = ?body\<rparr>"
    from answered [of 500 ?body] obtain req where
      h: "searchIssues_request (stubUpstream 500 ?body) c args = Inr req
        \<and> Do (stubUpstream 500 ?body) (httpClient c) req = Inr ?resp"
      by blast
    note r = search_result [of "stubUpstream 500 ?body" c args req ?resp undefined
        undefined undefined undefined, THEN mp, OF h]
    note other = r [THEN conjunct2, THEN conjunct1]
    have "StatusCode ?resp \<noteq> 200" by simp
    from other [THEN mp, OF this] show ?thesis by simp
  qed
  from one none missing refused show ?thesis
    unfolding c_def args_def by (intro conjI)
qed

text \<open>
  The names of the members are compared as the decoder compares them: a body that
  spells \<^verbatim>\<open>issues\<close> or \<^verbatim>\<open>key\<close> in capitals is read like one that spells them in small
  letters, and an element with no \<^verbatim>\<open>fields\<close> has the empty summary.
\<close>

lemma search_names_folded:
  "searchIssues_response
     \<lparr>StatusCode = 200,
      Response.Body = Inr (JObject [(''Issues'', JArray [JObject [(''KEY'', JString ''A-1'')]])])\<rparr>
   = Inr [[(''key'', ''A-1''), (''summary'', [])]]"
proof -
  have names: "isField ''issues'' ''Issues''" "isField ''key'' ''KEY''"
    "\<not> isField ''fields'' ''KEY''"
    by (simp_all add: isField_def toUpperASCII_def char_of_def bit_iff_odd_drop_bit)
  have view: "map issueView [JObject [(''KEY'', JString ''A-1'')]] = map Some [(''A-1'', [])]"
    by (simp add: members_Cons names stringOf_def)
  have "members ''issues'' [(''Issues'', JArray [JObject [(''KEY'', JString ''A-1'')]])]
      = [JArray [JObject [(''KEY'', JString ''A-1'')]]]"
    by (simp add: members_Cons names)
  from Decode_result_views [OF this view] show ?thesis
    by (simp add: searchIssues_response_ok appendIssues_map)
qed

subsection \<open>The handlers\<close>

lemma create_issue_cases:
  "create_issue e a =
     (case createIssue e (NewJiraClient (toLowerUnicode e) (CreateIssueArgs.JiraConfig a)) a of
        Inl err \<Rightarrow> Inl err
      | Inr issueKey \<Rightarrow>
          Inr (NewToolResponse [NewTextContent (Text (''Created issue: '' @ issueKey))]))"
  by (simp add: create_issue_def)

lemma update_issue_cases:
  "update_issue e u =
     (case updateIssue e (NewJiraClient (toLowerUnicode e) (UpdateIssueArgs.JiraConfig u)) u of
        None \<Rightarrow> None
      | Some (Inl err) \<Rightarrow> Some (Inl err)
      | Some (Inr issueKey) \<Rightarrow>
          Some (Inr (NewToolResponse [NewTextContent (Text (''Updated issue: '' @ issueKey))])))"
  by (simp add: update_issue_def)

lemma search_issues_cases:
  "search_issues e s =
     (case searchIssues e (NewJiraClient (toLowerUnicode e) (SearchIssuesArgs.JiraConfig s)) s of
        Inl err \<Rightarrow> Some (Inl err)
      | Inr issues \<Rightarrow>
          Some (Inr (NewToolResponse [NewTextContent (JSONText (sortKeys (issuesJSON issues)))])))"
  by (simp add: search_issues_def mustMarshal_total split: sum.split)

text \<open>
  C7. When the operation of the client fails, each of the three handlers returns the
  error of the client as it is; and a handler returns no error but the one of the client.
  The handler calls the operation once and does nothing else on its failure.
\<close>

theorem handlers_return_client_error:
  "((createIssue e (NewJiraClient (toLowerUnicode e) (CreateIssueArgs.JiraConfig a)) a = Inl err)
      = (create_issue e a = Inl err))
   \<and> ((updateIssue e (NewJiraClient (toLowerUnicode e) (UpdateIssueArgs.JiraConfig u)) u
        = Some (Inl err)) = (update_issue e u = Some (Inl err)))
   \<and> ((searchIssues e (NewJiraClient (toLowerUnicode e) (SearchIssuesArgs.JiraConfig s)) s
        = Inl err) = (search_issues e s = Some (Inl err)))"
proof (intro conjI)
  show "(createIssue e (NewJiraClient (toLowerUnicode e) (CreateIssueArgs.JiraConfig a)) a
          = Inl err) = (create_issue e a = Inl err)"
    unfolding create_issue_cases by (simp split: sum.split)
  show "(updateIssue e (NewJiraClient (toLowerUnicode e) (UpdateIssueArgs.JiraConfig u)) u
        = Some (Inl err)) = (update_issue e u = Some (Inl err))"
    unfolding update_issue_cases by (simp split: option.split sum.split)
  show "(searchIssues e (NewJiraClient (toLowerUnicode e) (SearchIssuesArgs.JiraConfig s)) s
        = Inl err) = (search_issues e s = Some (Inl err))"
    unfolding search_issues_cases by (simp split: sum.split)
qed

lemma stub_create_status:
  "code \<noteq> 201 \<Longrightarrow>
     createIssue (stubUpstream code body) c args = Inl (CreateIssueStatus code)"
proof -
  assume code: "code \<noteq> 201"
  obtain req where "createIssue_request (stubUpstream code body) c args = Inr req"
    using stub_create_built by blast
  then show ?thesis
    using code by (simp add: createIssue_def stub_Do createIssue_response_status)
qed

lemma stub_update_status:
  "code \<noteq> 200 \<Longrightarrow> code \<noteq> 204 \<Longrightarrow>
     updateIssue (stubUpstream code body) c args = Some (Inl (UpdateIssueStatus code))"
proof -
  assume code: "code \<noteq> 200" "code \<noteq> 204"
  obtain req where "updateIssue_request (stubUpstream code body) c args = Some (Inr req)"
    using stub_update_built by blast
  then show ?thesis
    using code
    by (simp add: updateIssue_def stub_Do updateIssue_response_def StatusOK_def
        StatusNoContent_def)
qed

lemma stub_search_status:
  "code \<noteq> 200 \<Longrightarrow>
     searchIssues (stubUpstream code body) c args = Inl (SearchIssuesStatus code)"
proof -
  assume code: "code \<noteq> 200"
  obtain req where "searchIssues_request (stubUpstream code body) c args = Inr req"
    using stub_search_built by blast
  then show ?thesis
    using code by (simp add: searchIssues_def stub_Do searchIssues_response_status)
qed

theorem handlers_return_client_error_witness:
  "create_issue (stubUpstream 400 (Inl [])) (createArgs cloudConfig)
      = Inl (CreateIssueStatus 400)
   \<and> update_issue (stubUpstream 400 (Inl [])) (updateArgs serverConfig ''New title'' [])
      = Some (Inl (UpdateIssueStatus 400))
   \<and> search_issues (stubUpstream 400 (Inl [])) (searchArgs serverConfig)
      = Some (Inl (SearchIssuesStatus 400))"
proof -
  define e where "e = stubUpstream 400 (Inl [])"
  define a where "a = createArgs cloudConfig"
  define u where "u = updateArgs serverConfig ''New title'' []"
  define s where "s = searchArgs serverConfig"
  have created: "createIssue e (NewJiraClient (toLowerUnicode e) (CreateIssueArgs.JiraConfig a)) a
      = Inl (CreateIssueStatus 400)"
    unfolding e_def by (rule stub_create_status) simp
  have updated: "updateIssue e (NewJiraClient (toLowerUnicode e) (UpdateIssueArgs.JiraConfig u)) u
      = Some (Inl (UpdateIssueStatus 400))"
    unfolding e_def by (rule stub_update_status) simp_all
  have searched: "searchIssues e (NewJiraClient (toLowerUnicode e) (SearchIssuesArgs.JiraConfig s)) s
      = Inl (SearchIssuesStatus 400)"
    unfolding e_def by (rule stub_search_status) simp
  note create = handlers_return_client_error
    [of e a "CreateIssueStatus 400" undefined undefined, THEN conjunct1]
  note update = handlers_return_client_error
    [of e undefined "UpdateIssueStatus 400" u undefined, THEN conjunct2, THEN conjunct1]
  note search = handlers_return_client_error
    [of e undefined "SearchIssuesStatus 400" undefined s, THEN conjunct2, THEN conjunct2]
  from create [THEN iffD1, OF created] update [THEN iffD1, OF updated]
    search [THEN iffD1, OF searched]
  show ?thesis
    unfolding e_def a_def u_def s_def by (intro conjI)
qed

subsection \<open>The requests of the three operations\<close>

lemma createIssue_request_parsed:
  assumes "urlParse e (JiraConfig.URL (config c) @ apiPrefix (variant c) @ ''/issue'') = None"
  shows "createIssue_request e c a = Inr
          \<lparr>Method = ''POST'',
           URL = JiraConfig.URL (config c) @ apiPrefix (variant c) @ ''/issue'',
           Header = [''Authorization'' \<mapsto> [authorization (variant c) (config c)],
                     ''Content-Type'' \<mapsto> [''application/json'']],
           Body = Some (sortKeys (createIssue_payload a))\<rparr>"
  using assms unfolding createIssue_request_explicit by simp

lemma updateIssue_request_parsed:
  assumes "urlParse e (JiraConfig.URL (config c) @ apiPrefix (variant c) @ ''/issue/''
                         @ IssueKey u) = None"
  shows "\<exists>body. updateIssue_request e c u = Some (Inr
          \<lparr>Method = ''PUT'',
           URL = JiraConfig.URL (config c) @ apiPrefix (variant c) @ ''/issue/'' @ IssueKey u,
           Header = [''Authorization'' \<mapsto> [authorization (variant c) (config c)],
                     ''Content-Type'' \<mapsto> [''application/json'']],
           Body = body\<rparr>)"
  using assms unfolding updateIssue_request_explicit by simp

lemma searchIssues_request_parsed:
  assumes "urlParse e (JiraConfig.URL (config c) @ apiPrefix (variant c) @ ''/search?jql=''
                        @ JQL s @ ''&fields=summary'') = None"
  shows "searchIssues_request e c s = Inr
          \<lparr>Method = ''GET'',
           URL = JiraConfig.URL (config c) @ apiPrefix (variant c) @ ''/search?jql=''
                   @ JQL s @ ''&fields=summary'',
           Header = [''Authorization'' \<mapsto> [authorization (variant c) (config c)],
                     ''Content-Type'' \<mapsto> [''application/json'']],
           Body = None\<rparr>"
  using assms unfolding searchIssues_request_explicit by simp

lemma createIssue_sent:
  "createIssue_request e c a = Inr r \<Longrightarrow>
     createIssue e c a =
       (case Do e (httpClient c) r of
          Inl err \<Rightarrow> Inl (SendRequestFailed err)
        | Inr resp \<Rightarrow> createIssue_response resp)"
  by (simp add: createIssue_def)

lemma searchIssues_sent:
  "searchIssues_request e c s = Inr r \<Longrightarrow>
     searchIssues e c s =
       (case Do e (httpClient c) r of
          Inl err \<Rightarrow> Inl (SendRequestFailed err)
        | Inr resp \<Rightarrow> searchIssues_response resp)"
  by (simp add: searchIssues_def)

text \<open>
  C2. Whatever the configuration, each of \<^verbatim>\<open>createIssue\<close>, \<^verbatim>\<open>updateIssue\<close> and
  \<^verbatim>\<open>searchIssues\<close> builds a request as soon as its URL parses, and hands this request to
  the HTTP client; and the request it builds has the path prefix and the
  \<^verbatim>\<open>Authorization\<close> header that the specification gives for the variant resolved from
  the configuration: \<^verbatim>\<open>/rest/api/3\<close> and HTTP Basic with the e-mail and the credential for
  Cloud, \<^verbatim>\<open>/rest/api/2\<close> and \<^verbatim>\<open>Bearer\<close> with the credential for DataCenter; and it has the
  header \<^verbatim>\<open>Content-Type: application/json\<close>, for POST, PUT and GET alike.
\<close>

theorem request_prefix_and_authentication:
  "(urlParse e (JiraConfig.URL cfg
        @ apiPrefix (variant (NewJiraClient (toLowerUnicode e) cfg)) @ ''/issue'') = None \<longrightarrow>
      (\<exists>r. createIssue_request e (NewJiraClient (toLowerUnicode e) cfg) a = Inr r
         \<and> createIssue e (NewJiraClient (toLowerUnicode e) cfg) a =
             (case Do e (httpClient (NewJiraClient (toLowerUnicode e) cfg)) r of
                Inl err \<Rightarrow> Inl (SendRequestFailed err)
              | Inr resp \<Rightarrow> createIssue_response resp)))
   \<and> (createIssue_request e (NewJiraClient (toLowerUnicode e) cfg) a = Inr r1 \<longrightarrow>
      Method r1 = ''POST''
      \<and> Request.URL r1 = JiraConfig.URL cfg
            @ apiPrefix (variant (NewJiraClient (toLowerUnicode e) cfg)) @ ''/issue''
      \<and> Header r1 ''Authorization''
            = Some [authorization (variant (NewJiraClient (toLowerUnicode e) cfg)) cfg]
      \<and> Header r1 ''Content-Type'' = Some [''application/json''])
   \<and> (urlParse e (JiraConfig.URL cfg
        @ apiPrefix (variant (NewJiraClient (toLowerUnicode e) cfg)) @ ''/issue/''
        @ IssueKey u) = None \<longrightarrow>
      (\<exists>r. updateIssue_request e (NewJiraClient (toLowerUnicode e) cfg) u = Some (Inr r)
         \<and> updateIssue e (NewJiraClient (toLowerUnicode e) cfg) u = Some
             (case Do e (httpClient (NewJiraClient (toLowerUnicode e) cfg)) r of
                Inl err \<Rightarrow> Inl (SendRequestFailed err)
              | Inr resp \<Rightarrow> updateIssue_response u resp)))
   \<and> (updateIssue_request e (NewJiraClient (toLowerUnicode e) cfg) u = Some (Inr r2) \<longrightarrow>
      Method r2 = ''PUT''
      \<and> Request.URL r2 = JiraConfig.URL cfg
            @ apiPrefix (variant (NewJiraClient (toLowerUnicode e) cfg)) @ ''/issue/''
            @ IssueKey u
      \<and> Header r2 ''Authorization''
            = Some [authorization (variant (NewJiraClient (toLowerUnicode e) cfg)) cfg]
      \<and> Header r2 ''Content-Type'' = Some [''application/json''])
   \<and> (urlParse e (JiraConfig.URL cfg
        @ apiPrefix (variant (NewJiraClient (toLowerUnicode e) cfg)) @ ''/search?jql=''
        @ JQL s @ ''&fields=summary'') = None \<longrightarrow>
      (\<exists>r. searchIssues_request e (NewJiraClient (toLowerUnicode e) cfg) s = Inr r
         \<and> searchIssues e (NewJiraClient (toLowerUnicode e) cfg) s =
             (case Do e (httpClient (NewJiraClient (toLowerUnicode e) cfg)) r of
                Inl err \<Rightarrow> Inl (SendRequestFailed err)
              | Inr resp \<Rightarrow> searchIssues_response resp)))
   \<and> (searchIssues_request e (NewJiraClient (toLowerUnicode e) cfg) s = Inr r3 \<longrightarrow>
      Method r3 = ''GET''
      \<and> Request.URL r3 = JiraConfig.URL cfg
            @ apiPrefix (variant (NewJiraClient (toLowerUnicode e) cfg)) @ ''/search?jql=''
            @ JQL s @ ''&fields=summary''
      \<and> Header r3 ''Authorization''
            = Some [authorization (variant (NewJiraClient (toLowerUnicode e) cfg)) cfg]
      \<and> Header r3 ''Content-Type'' = Some [''application/json''])"
proof -
  define c where "c = NewJiraClient (toLowerUnicode e) cfg"
  have cfg: "config c = cfg"
    by (simp add: c_def config_NewJiraClient)
  have create_built: "urlParse e (JiraConfig.URL cfg @ apiPrefix (variant c) @ ''/issue'') = None
      \<longrightarrow> (\<exists>r. createIssue_request e c a = Inr r
         \<and> createIssue e c a =
             (case Do e (httpClient c) r of
                Inl err \<Rightarrow> Inl (SendRequestFailed err)
              | Inr resp \<Rightarrow> createIssue_response resp))"
  proof
    assume "urlParse e (JiraConfig.URL cfg @ apiPrefix (variant c) @ ''/issue'') = None"
    then have "\<exists>r. createIssue_request e c a = Inr r"
      using createIssue_request_parsed [of e c a] unfolding cfg by simp
    then obtain r where r: "createIssue_request e c a = Inr r" by blast
    from r createIssue_sent [OF r]
    show "\<exists>r. createIssue_request e c a = Inr r
         \<and> createIssue e c a =
             (case Do e (httpClient c) r of
                Inl err \<Rightarrow> Inl (SendRequestFailed err)
              | Inr resp \<Rightarrow> createIssue_response resp)"
      by blast
  qed
  have create_props: "createIssue_request e c a = Inr r1 \<longrightarrow>
      Method r1 = ''POST''
      \<and> Request.URL r1 = JiraConfig.URL cfg @ apiPrefix (variant c) @ ''/issue''
      \<and> Header r1 ''Authorization'' = Some [authorization (variant c) cfg]
      \<and> Header r1 ''Content-Type'' = Some [''application/json'']"
    unfolding createIssue_request_explicit cfg
    by (auto split: option.splits)
  have update_built: "urlParse e (JiraConfig.URL cfg @ apiPrefix (variant c) @ ''/issue/''
        @ IssueKey u) = None
      \<longrightarrow> (\<exists>r. updateIssue_request e c u = Some (Inr r)
         \<and> updateIssue e c u = Some
             (case Do e (httpClient c) r of
                Inl err \<Rightarrow> Inl (SendRequestFailed err)
              | Inr resp \<Rightarrow> updateIssue_response u resp))"
  proof
    assume "urlParse e (JiraConfig.URL cfg @ apiPrefix (variant c) @ ''/issue/''
        @ IssueKey u) = None"
    then have "\<exists>r. updateIssue_request e c u = Some (Inr r)"
      using updateIssue_request_parsed [of e c u] unfolding cfg by blast
    then obtain r where r: "updateIssue_request e c u = Some (Inr r)" by blast
    from r updateIssue_built [OF r]
    show "\<exists>r. updateIssue_request e c u = Some (Inr r)
         \<and> updateIssue e c u = Some
             (case Do e (httpClient c) r of
                Inl err \<Rightarrow> Inl (SendRequestFailed err)
              | Inr resp \<Rightarrow> updateIssue_response u resp)"
      by blast
  qed
  have update_props: "updateIssue_request e c u = Some (Inr r2) \<longrightarrow>
      Method r2 = ''PUT''
      \<and> Request.URL r2 = JiraConfig.URL cfg @ apiPrefix (variant c) @ ''/issue/'' @ IssueKey u
      \<and> Header r2 ''Authorization'' = Some [authorization (variant c) cfg]
      \<and> Header r2 ''Content-Type'' = Some [''application/json'']"
    unfolding updateIssue_request_explicit cfg
    by (auto split: option.splits)
  have search_built: "urlParse e (JiraConfig.URL cfg @ apiPrefix (variant c) @ ''/search?jql=''
        @ JQL s @ ''&fields=summary'') = None
      \<longrightarrow> (\<exists>r. searchIssues_request e c s = Inr r
         \<and> searchIssues e c s =
             (case Do e (httpClient c) r of
                Inl err \<Rightarrow> Inl (SendRequestFailed err)
              | Inr resp \<Rightarrow> searchIssues_response resp))"
  proof
    assume "urlParse e (JiraConfig.URL cfg @ apiPrefix (variant c) @ ''/search?jql=''
        @ JQL s @ ''&fields=summary'') = None"
    then have "\<exists>r. searchIssues_request e c s = Inr r"
      using searchIssues_request_parsed [of e c s] unfolding cfg by simp
    then obtain r where r: "searchIssues_request e c s = Inr r" by blast
    from r searchIssues_sent [OF r]
    show "\<exists>r. searchIssues_request e c s = Inr r
         \<and> searchIssues e c s =
             (case Do e (httpClient c) r of
                Inl err \<Rightarrow> Inl (SendRequestFailed err)
              | Inr resp \<Rightarrow> searchIssues_response resp)"
      by blast
  qed
  have search_props: "searchIssues_request e c s = Inr r3 \<longrightarrow>
      Method r3 = ''GET''
      \<and> Request.URL r3 = JiraConfig.URL cfg @ apiPrefix (variant c) @ ''/search?jql=''
            @ JQL s @ ''&fields=summary''
      \<and> Header r3 ''Authorization'' = Some [authorization (variant c) cfg]
      \<and> Header r3 ''Content-Type'' = Some [''application/json'']"
    unfolding searchIssues_request_explicit cfg
    by (auto split: option.splits)
  from create_built create_props update_built update_props search_built search_props
  show ?thesis
    unfolding c_def by (intro conjI)
qed

theorem request_prefix_and_authentication_witness:
  "(\<exists>r. createIssue_request (stubUpstream 201 (Inl []))
          (NewJiraClient id cloudConfig) (createArgs cloudConfig) = Inr r
        \<and> Method r = ''POST''
        \<and> Request.URL r = ''https://team.atlassian.net/rest/api/3/issue''
        \<and> Header r ''Authorization'' = Some [''Basic YUBiLmM6dG9r'']
        \<and> Header r ''Content-Type'' = Some [''application/json''])
   \<and> (\<exists>r. updateIssue_request (stubUpstream 204 (Inl []))
          (NewJiraClient id serverConfig) (updateArgs serverConfig ''New title'' [])
            = Some (Inr r)
        \<and> Method r = ''PUT''
        \<and> Request.URL r = ''https://jira.example.com/rest/api/2/issue/PROJ-123''
        \<and> Header r ''Authorization'' = Some [''Bearer tok'']
        \<and> Header r ''Content-Type'' = Some [''application/json''])
   \<and> (\<exists>r. searchIssues_request (stubUpstream 200 (Inl []))
          (NewJiraClient id serverConfig) (searchArgs serverConfig) = Inr r
        \<and> Method r = ''GET''
        \<and> Request.URL r
              = ''https://jira.example.com/rest/api/2/search?jql=project=PROJ&fields=summary''
        \<and> Header r ''Authorization'' = Some [''Bearer tok'']
        \<and> Header r ''Content-Type'' = Some [''application/json''])"
proof (intro conjI)
  define e where "e = stubUpstream 201 (Inl [])"
  have lower: "toLowerUnicode e = id"
    by (simp add: e_def stubUpstream_def)
  have parses: "urlParse e (JiraConfig.URL cloudConfig
      @ apiPrefix (variant (NewJiraClient (toLowerUnicode e) cloudConfig)) @ ''/issue'') = None"
    by (simp add: e_def stubUpstream_def)
  note built = request_prefix_and_authentication
    [of e cloudConfig "createArgs cloudConfig" undefined undefined undefined undefined undefined,
     THEN conjunct1, THEN mp, OF parses]
  then obtain r where r: "createIssue_request e (NewJiraClient (toLowerUnicode e) cloudConfig)
      (createArgs cloudConfig) = Inr r"
    by blast
  note props = request_prefix_and_authentication
    [of e cloudConfig "createArgs cloudConfig" r undefined undefined undefined undefined,
     THEN conjunct2, THEN conjunct1, THEN mp, OF r]
  then have "Method r = ''POST''
        \<and> Request.URL r = ''https://team.atlassian.net/rest/api/3/issue''
        \<and> Header r ''Authorization'' = Some [''Basic YUBiLmM6dG9r'']
        \<and> Header r ''Content-Type'' = Some [''application/json'']"
    unfolding lower variant_cloudConfig apiPrefix.simps authorization.simps
    by (simp add: cloudConfig_def EncodeToString_example)
  moreover have "createIssue_request e (NewJiraClient id cloudConfig) (createArgs cloudConfig)
      = Inr r"
    using r unfolding lower .
  ultimately show "\<exists>r. createIssue_request (stubUpstream 201 (Inl []))
          (NewJiraClient id cloudConfig) (createArgs cloudConfig) = Inr r
        \<and> Method r = ''POST''
        \<and> Request.URL r = ''https://team.atlassian.net/rest/api/3/issue''
        \<and> Header r ''Authorization'' = Some [''Basic YUBiLmM6dG9r'']
        \<and> Header r ''Content-Type'' = Some [''application/json'']"
    unfolding e_def by blast
next
  define e where "e = stubUpstream 204 (Inl [])"
  define u where "u = updateArgs serverConfig ''New title'' []"
  have lower: "toLowerUnicode e = id"
    by (simp add: e_def stubUpstream_def)
  have parses: "urlParse e (JiraConfig.URL serverConfig
      @ apiPrefix (variant (NewJiraClient (toLowerUnicode e) serverConfig)) @ ''/issue/''
      @ IssueKey u) = None"
    by (simp add: e_def stubUpstream_def)
  note built = request_prefix_and_authentication
    [of e serverConfig undefined undefined u undefined undefined undefined,
     THEN conjunct2, THEN conjunct2, THEN conjunct1, THEN mp, OF parses]
  then obtain r where r: "updateIssue_request e (NewJiraClient (toLowerUnicode e) serverConfig) u
      = Some (Inr r)"
    by blast
  note props = request_prefix_and_authentication
    [of e serverConfig undefined undefined u r undefined undefined,
     THEN conjunct2, THEN conjunct2, THEN conjunct2, THEN conjunct1, THEN mp, OF r]
  then have "Method r = ''PUT''
        \<and> Request.URL r = ''https://jira.example.com/rest/api/2/issue/PROJ-123''
        \<and> Header r ''Authorization'' = Some [''Bearer tok'']
        \<and> Header r ''Content-Type'' = Some [''application/json'']"
    unfolding lower variant_serverConfig apiPrefix.simps authorization.simps
    by (simp add: serverConfig_def u_def updateArgs_def)
  moreover have "updateIssue_request e (NewJiraClient id serverConfig) u = Some (Inr r)"
    using r unfolding lower .
  ultimately show "\<exists>r. updateIssue_request (stubUpstream 204 (Inl []))
          (NewJiraClient id serverConfig) (updateArgs serverConfig ''New title'' [])
            = Some (Inr r)
        \<and> Method r = ''PUT''
        \<and> Request.URL r = ''https://jira.example.com/rest/api/2/issue/PROJ-123''
        \<and> Header r ''Authorization'' = Some [''Bearer tok'']
        \<and> Header r ''Content-Type'' = Some [''application/json'']"
    unfolding e_def u_def by blast
next
  define e where "e = stubUpstream 200 (Inl [])"
  have lower: "toLowerUnicode e = id"
    by (simp add: e_def stubUpstream_def)
  have parses: "urlParse e (JiraConfig.URL serverConfig
      @ apiPrefix (variant (NewJiraClient (toLowerUnicode e) serverConfig)) @ ''/search?jql=''
      @ JQL (searchArgs serverConfig) @ ''&fields=summary'') = None"
    by (simp add: e_def stubUpstream_def)
  note built = request_prefix_and_authentication
    [of e serverConfig undefined undefined undefined undefined "searchArgs serverConfig"
        undefined,
     THEN conjunct2, THEN conjunct2, THEN conjunct2, THEN conjunct2, THEN conjunct1,
     THEN mp, OF parses]
  then obtain r where r: "searchIssues_request e (NewJiraClient (toLowerUnicode e) serverConfig)
      (searchArgs serverConfig) = Inr r"
    by blast
  note props = request_prefix_and_authentication
    [of e serverConfig undefined undefined undefined undefined "searchArgs serverConfig" r,
     THEN conjunct2, THEN conjunct2, THEN conjunct2, THEN conjunct2, THEN conjunct2,
     THEN mp, OF r]
  then have "Method r = ''GET''
        \<and> Request.URL r
              = ''https://jira.example.com/rest/api/2/search?jql=project=PROJ&fields=summary''
        \<and> Header r ''Authorization'' = Some [''Bearer tok'']
        \<and> Header r ''Content-Type'' = Some [''application/json'']"
    unfolding lower variant_serverConfig apiPrefix.simps authorization.simps
    by (simp add: serverConfig_def searchArgs_def)
  moreover have "searchIssues_request e (NewJiraClient id serverConfig) (searchArgs serverConfig)
      = Inr r"
    using r unfolding lower .
  ultimately show "\<exists>r. searchIssues_request (stubUpstream 200 (Inl []))
          (NewJiraClient id serverConfig) (searchArgs serverConfig) = Inr r
        \<and> Method r = ''GET''
        \<and> Request.URL r
              = ''https://jira.example.com/rest/api/2/search?jql=project=PROJ&fields=summary''
        \<and> Header r ''Authorization'' = Some [''Bearer tok'']
        \<and> Header r ''Content-Type'' = Some [''application/json'']"
    unfolding e_def by blast
qed

end
